theory Spec2Isabelle
  imports Complex_Main "HOL-Library.Word" "HOL-Library.Signed_Division"
begin

section \<open>Go's machine types\<close>

text \<open>
  The service is built for 64-bit targets, where Go's \<^verbatim>\<open>int\<close> is a 64-bit two's
  complement integer: \<open>+\<close> and \<open>-\<close> wrap around, and \<^verbatim>\<open>/\<close> truncates towards zero.
  A Go \<^verbatim>\<open>string\<close> and a \<^verbatim>\<open>[]byte\<close> are both byte sequences, as \<open>string\<close> is here.
\<close>

type_synonym go_int = "64 word"
type_synonym uint64 = "64 word"
type_synonym bytes = string

text \<open>
  Go's \<^verbatim>\<open>a / b\<close> on \<^verbatim>\<open>int\<close>: the quotient is truncated towards zero (HOL's \<open>div\<close>
  rounds down instead). A zero divisor panics in Go; the only division of the program
  has the constant divisor 128.
\<close>

definition go_div :: "go_int \<Rightarrow> go_int \<Rightarrow> go_int" where
  "go_div a b = word_of_int (sint a sdiv sint b)"

text \<open>
  A \<^verbatim>\<open>float64\<close> is a finite value (every one of them is a rational number), an
  infinity or a NaN. The conversion \<^verbatim>\<open>int(f)\<close> discards the fraction; when the value is
  not finite or does not fit, Go leaves the result to the implementation, which is the
  parameter \<open>impl\<close> here.
\<close>

datatype float64 = Finite real | PosInf | NegInf | NaN

definition trunc :: "real \<Rightarrow> int" where
  "trunc x = (if 0 \<le> x then \<lfloor>x\<rfloor> else \<lceil>x\<rceil>)"

definition int_of_float64 :: "(float64 \<Rightarrow> go_int) \<Rightarrow> float64 \<Rightarrow> go_int" where
  "int_of_float64 impl f =
     (case f of
        Finite x \<Rightarrow>
          (if - (2 ^ 63) \<le> trunc x \<and> trunc x < 2 ^ 63 then word_of_int (trunc x) else impl f)
      | _ \<Rightarrow> impl f)"

text \<open>A Go \<^verbatim>\<open>error\<close> value that is not nil; the string is what \<^verbatim>\<open>err.Error()\<close> returns.\<close>

datatype error = Error string

fun Error_text :: "error \<Rightarrow> string" where
  "Error_text (Error msg) = msg"

text \<open>The verb \<^verbatim>\<open>%d\<close> of \<^verbatim>\<open>fmt\<close>: decimal digits, with a minus sign for a negative number.\<close>

definition digit_char :: "nat \<Rightarrow> char" where
  "digit_char d = ''0123456789'' ! d"

fun fmt_d_nat :: "nat \<Rightarrow> string" where
  "fmt_d_nat n =
     (if n < 10 then [digit_char n] else fmt_d_nat (n div 10) @ [digit_char (n mod 10)])"

declare fmt_d_nat.simps [simp del]

definition fmt_d_int :: "int \<Rightarrow> string" where
  "fmt_d_int i = (if i < 0 then CHR ''-'' # fmt_d_nat (nat (- i)) else fmt_d_nat (nat i))"

text \<open>A value held in an \<^verbatim>\<open>interface{}\<close>, for the kinds of value the program stores.\<close>

datatype any_value = Nil_value | String_value string | Bool_value bool | Int_value go_int


section \<open>What the replay library hands to the program\<close>

text \<open>
  The declarations of the replay library that the program reads. \<^verbatim>\<open>common.Team\<close> has the
  four named sides; of \<^verbatim>\<open>common.Player\<close> the program reads the 64-bit identity, the name
  and the side. A \<^verbatim>\<open>*common.Player\<close> is \<open>None\<close> when the pointer is nil, and every
  signal carries the player as the library shows it at that moment.
\<close>

datatype Team = TeamUnassigned | TeamSpectators | TeamTerrorists | TeamCounterTerrorists

record common_Player =
  SteamID64 :: uint64
  Name :: string
  Team :: Team

text \<open>
  The three kinds of event with a registered handler. Of a round end the handler reads
  \<^verbatim>\<open>e.Winner.String()\<close> and \<^verbatim>\<open>e.Reason.String()\<close>, of a kill \<^verbatim>\<open>e.Weapon.String()\<close>: the
  fields \<open>Winner_String\<close>, \<open>Reason_String\<close> and \<open>Weapon_String\<close> are those texts.
\<close>

record RoundStart =
  TimeLimit :: go_int
  FragLimit :: go_int
  Objective :: string

record RoundEnd =
  Message :: string
  Reason_String :: string
  Winner_String :: string

record Kill =
  Killer :: "common_Player option"
  Victim :: "common_Player option"
  Assister :: "common_Player option"
  Weapon_String :: string
  IsHeadshot :: bool
  PenetratedObjects :: go_int

text \<open>
  What \<^verbatim>\<open>p.GameState()\<close> shows while a handler runs: \<^verbatim>\<open>IngameTick()\<close>,
  \<^verbatim>\<open>TeamCounterTerrorists().Score()\<close> and \<^verbatim>\<open>TeamTerrorists().Score()\<close>.
\<close>

record GameState =
  IngameTick :: go_int
  CT_Score :: go_int
  T_Score :: go_int

text \<open>
  A signal is one dispatched event together with the game state at that moment. Events of
  every other kind have no handler in the program.
\<close>

datatype event = EvRoundStart RoundStart | EvRoundEnd RoundEnd | EvKill Kill | EvOther

type_synonym signal = "event \<times> GameState"

text \<open>
  The header after parsing: the map name, \<^verbatim>\<open>PlaybackTime.Seconds()\<close> and \<^verbatim>\<open>FrameRate()\<close>.
\<close>

record DemoHeader =
  MapName :: string
  PlaybackTime_Seconds :: float64
  FrameRate :: float64

text \<open>
  One run of \<^verbatim>\<open>ParseToEnd\<close> on a buffer: the signals it dispatched, in order, and then
  either the error it returned or, when it returned nil, the header.
\<close>

record parse_run =
  dispatched :: "signal list"
  finished :: "error + DemoHeader"


section \<open>The program's records\<close>

record ParseRequest =
  DemoID :: string
  FilePath :: string

record Player =
  SteamID :: string
  Name :: string
  Team :: string
  Kills :: go_int
  Deaths :: go_int
  Assists :: go_int
  ADR :: float64
  HSP :: float64
  KAST :: float64
  Rating :: float64
  Stats :: "string \<rightharpoonup> any_value"

record Round =
  RoundNumber :: go_int
  WinnerSide :: string
  WinReason :: string
  CTScore :: go_int
  TScore :: go_int
  DurationSeconds :: go_int
  RoundData :: "string \<rightharpoonup> any_value"

record GameEvent =
  EventType :: string
  Tick :: go_int
  RoundNumber :: go_int
  EventData :: "string \<rightharpoonup> any_value"

record Metadata =
  MapName :: string
  Duration :: go_int
  TickRate :: go_int

record ParsedData =
  DemoID :: string
  Players :: "Player list"
  Rounds :: "Round list"
  Events :: "GameEvent list"
  Metadata :: Metadata


section \<open>The world outside the program\<close>

text \<open>
  Everything the program obtains from outside itself: the environment variables, the
  HTTP client, the replay parser, and two choices that Go leaves to the runtime (the order
  in which \<^verbatim>\<open>range\<close> visits a map, and the integer a \<^verbatim>\<open>float64\<close> out of range converts to).
  Of the JSON library: \<open>json_Unmarshal\<close> is what storing one complete JSON value into a
  \<^verbatim>\<open>ParseRequest\<close> gives, \<open>json_Marshal\<close> the encoding of a result, and \<open>quoteChar\<close> the
  quoted form of a byte in the text of a syntax error.
\<close>

record Request =
  Method :: string
  URL :: string
  Header :: "string \<rightharpoonup> string"
  Body :: bytes

text \<open>
  Of a response the program reads the status code and \<^verbatim>\<open>io.ReadAll(resp.Body)\<close>, which
  returns the bytes read and an error or nil.
\<close>

record Response =
  StatusCode :: go_int
  ReadAll :: "bytes \<times> error option"

record world =
  Getenv :: "string \<Rightarrow> string"
  NewRequest_error :: "string \<Rightarrow> string \<Rightarrow> error option"
  client_Do :: "nat \<Rightarrow> Request \<Rightarrow> error + Response"
  json_Unmarshal :: "bytes \<Rightarrow> error + ParseRequest"
  quoteChar :: "char \<Rightarrow> string"
  json_Marshal :: "ParsedData \<Rightarrow> error + bytes"
  ParseToEnd :: "bytes \<Rightarrow> parse_run"
  range_order :: "(uint64 \<rightharpoonup> Player) \<Rightarrow> uint64 list"
  float64_out_of_range :: "float64 \<Rightarrow> go_int"


section \<open>The aggregation engine: \<^verbatim>\<open>parseDemo\<close> and its handlers\<close>

text \<open>
  The variables the three handlers share: the result under construction and the locals
  \<^verbatim>\<open>playerStats\<close>, \<^verbatim>\<open>currentRound\<close> and \<^verbatim>\<open>startTick\<close> of \<^verbatim>\<open>parseDemo\<close>.
  \<^verbatim>\<open>playerStats\<close> maps an identity to a pointer to its accumulator; each accumulator is
  reachable through its own key only, so the map holds the accumulators themselves and a
  \<^verbatim>\<open>*Player\<close> is the key it is stored under (\<open>None\<close> for nil).
\<close>

record handler_state =
  parsed :: ParsedData
  playerStats :: "uint64 \<rightharpoonup> Player"
  currentRound :: go_int
  startTick :: go_int

definition getOrCreatePlayer ::
  "(uint64 \<rightharpoonup> Player) \<Rightarrow> common_Player option \<Rightarrow> (uint64 \<rightharpoonup> Player) \<times> uint64 option" where
  "getOrCreatePlayer stats p =
     (case p of
        None \<Rightarrow> (stats, None)
      | Some cp \<Rightarrow>
          (case stats (SteamID64 cp) of
             Some player \<Rightarrow> (stats, Some (SteamID64 cp))
           | None \<Rightarrow>
               (let team = (if common_Player.Team cp = TeamTerrorists then ''T''
                            else if common_Player.Team cp = TeamCounterTerrorists then ''CT''
                            else ''spectator'');
                    player = \<lparr>SteamID = fmt_d_nat (unat (SteamID64 cp)),
                              Name = common_Player.Name cp,
                              Team = team,
                              Kills = 0, Deaths = 0, Assists = 0,
                              ADR = Finite 0, HSP = Finite 0, KAST = Finite 0, Rating = Finite 0,
                              Stats = Map.empty\<rparr>
                in (stats(SteamID64 cp \<mapsto> player), Some (SteamID64 cp)))))"

definition getPlayerName :: "common_Player option \<Rightarrow> string" where
  "getPlayerName p = (case p of None \<Rightarrow> ''unknown'' | Some cp \<Rightarrow> common_Player.Name cp)"

text \<open>
  An assignment through a \<^verbatim>\<open>*Player\<close>, such as \<^verbatim>\<open>killer.Kills++\<close>. The handlers only
  assign through a pointer that \<open>getOrCreatePlayer\<close> returned for a player that is not
  nil, so the pointer is never nil there.
\<close>

definition assign_through ::
  "(uint64 \<rightharpoonup> Player) \<times> uint64 option \<Rightarrow> (Player \<Rightarrow> Player) \<Rightarrow> (uint64 \<rightharpoonup> Player)" where
  "assign_through sp f =
     (case sp of
        (stats, None) \<Rightarrow> stats
      | (stats, Some k) \<Rightarrow> (case stats k of None \<Rightarrow> stats | Some player \<Rightarrow> stats(k \<mapsto> f player)))"

definition on_RoundStart :: "handler_state \<Rightarrow> RoundStart \<Rightarrow> GameState \<Rightarrow> handler_state" where
  "on_RoundStart s e gs = s\<lparr>currentRound := currentRound s + 1, startTick := IngameTick gs\<rparr>"

definition on_RoundEnd :: "handler_state \<Rightarrow> RoundEnd \<Rightarrow> GameState \<Rightarrow> handler_state" where
  "on_RoundEnd s e gs =
     s\<lparr>parsed := (parsed s)\<lparr>Rounds := Rounds (parsed s) @
        [\<lparr>Round.RoundNumber = currentRound s,
          WinnerSide = Winner_String e,
          WinReason = Reason_String e,
          CTScore = CT_Score gs,
          TScore = T_Score gs,
          DurationSeconds = go_div (IngameTick gs - startTick s) 128,
          RoundData = Map.empty\<rparr>]\<rparr>\<rparr>"

definition on_Kill :: "handler_state \<Rightarrow> Kill \<Rightarrow> GameState \<Rightarrow> handler_state" where
  "on_Kill s e gs =
     (let stats0 = playerStats s;
          stats1 = (if Killer e \<noteq> None
                    then assign_through (getOrCreatePlayer stats0 (Killer e))
                           (\<lambda>killer. killer\<lparr>Kills := Kills killer + 1\<rparr>)
                    else stats0);
          stats2 = (if Victim e \<noteq> None
                    then assign_through (getOrCreatePlayer stats1 (Victim e))
                           (\<lambda>victim. victim\<lparr>Deaths := Deaths victim + 1\<rparr>)
                    else stats1);
          stats3 = (if Assister e \<noteq> None
                    then assign_through (getOrCreatePlayer stats2 (Assister e))
                           (\<lambda>assister. assister\<lparr>Assists := Assists assister + 1\<rparr>)
                    else stats2);
          eventData = [''killer'' \<mapsto> String_value (getPlayerName (Killer e)),
                       ''victim'' \<mapsto> String_value (getPlayerName (Victim e)),
                       ''weapon'' \<mapsto> String_value (Weapon_String e),
                       ''isHeadshot'' \<mapsto> Bool_value (IsHeadshot e),
                       ''penetrated'' \<mapsto> Int_value (PenetratedObjects e)]
      in s\<lparr>playerStats := stats3,
           parsed := (parsed s)\<lparr>Events := Events (parsed s) @
             [\<lparr>EventType = ''kill'',
               Tick = IngameTick gs,
               RoundNumber = currentRound s,
               EventData = eventData\<rparr>]\<rparr>\<rparr>)"

text \<open>The library calls the handler registered for the kind of the event, if there is one.\<close>

fun dispatch :: "handler_state \<Rightarrow> signal \<Rightarrow> handler_state" where
  "dispatch s (EvRoundStart e, gs) = on_RoundStart s e gs"
| "dispatch s (EvRoundEnd e, gs) = on_RoundEnd s e gs"
| "dispatch s (EvKill e, gs) = on_Kill s e gs"
| "dispatch s (EvOther, gs) = s"

definition initial_state :: "string \<Rightarrow> handler_state" where
  "initial_state demoID =
     \<lparr>parsed = \<lparr>DemoID = demoID, Players = [], Rounds = [], Events = [],
                Metadata = \<lparr>MapName = [], Duration = 0, TickRate = 0\<rparr>\<rparr>,
      playerStats = Map.empty,
      currentRound = 0,
      startTick = 0\<rparr>"

text \<open>The state of the handlers' variables after the signals \<open>sigs\<close>, in order.\<close>

definition run_handlers :: "handler_state \<Rightarrow> signal list \<Rightarrow> handler_state" where
  "run_handlers s sigs = foldl dispatch s sigs"

text \<open>
  \<^verbatim>\<open>parseDemo\<close> returns \<^verbatim>\<open>(nil, err)\<close>, here \<open>Inl err\<close>, when \<^verbatim>\<open>ParseToEnd\<close> fails, and the
  finished result otherwise. The loop over \<^verbatim>\<open>playerStats\<close> copies each accumulator, in the
  order the runtime visits the keys.
\<close>

definition parseDemo :: "world \<Rightarrow> string \<Rightarrow> bytes \<Rightarrow> error + ParsedData" where
  "parseDemo w demoID data =
     (let p = ParseToEnd w data;
          s = run_handlers (initial_state demoID) (dispatched p)
      in case finished p of
           Inl err \<Rightarrow> Inl err
         | Inr header \<Rightarrow>
             Inr ((parsed s)
               \<lparr>Players := Players (parsed s) @
                   List.map_filter (playerStats s) (range_order w (playerStats s)),
                Metadata :=
                  \<lparr>MapName = DemoHeader.MapName header,
                   Duration = int_of_float64 (float64_out_of_range w) (PlaybackTime_Seconds header),
                   TickRate = int_of_float64 (float64_out_of_range w) (FrameRate header)\<rparr>\<rparr>))"


section \<open>The JSON decoder that reads the request\<close>

text \<open>
  \<^verbatim>\<open>json.NewDecoder(r.Body).Decode(&req)\<close> first reads one JSON value from the front of the
  body and then stores it. Reading is done by the library's scanner, a state machine fed
  one byte at a time: \<open>step\<close> names the function the scanner will call for the next byte,
  \<open>parseState\<close> is the stack of open objects and arrays (the innermost last), and
  \<open>scan_err\<close> the syntax error met. Every syntax error of the scanner names the offending
  byte and a context; the count of bytes, which only feeds the offset of an error, is left
  out. Where the library indexes the stack it is never empty.
\<close>

datatype parse_state = parseObjectKey | parseObjectValue | parseArrayValue

datatype scan_code =
    scanContinue | scanBeginLiteral | scanBeginObject | scanObjectKey | scanObjectValue
  | scanEndObject | scanBeginArray | scanArrayValue | scanEndArray | scanSkipSpace
  | scanEnd | scanError

datatype step_state =
    stateBeginValueOrEmpty | stateBeginValue | stateBeginStringOrEmpty | stateBeginString
  | stateEndValue | stateEndTop
  | stateInString | stateInStringEsc | stateInStringEscU | stateInStringEscU1
  | stateInStringEscU12 | stateInStringEscU123
  | stateNeg | state1 | state0 | stateDot | stateDot0 | stateE | stateESign | stateE0
  | stateT | stateTr | stateTru | stateF | stateFa | stateFal | stateFals
  | stateN | stateNu | stateNul | stateError

datatype SyntaxError = invalid_character char string | unexpected_end_of_JSON_input

record scanner =
  step :: step_state
  endTop :: bool
  parseState :: "parse_state list"
  scan_err :: "SyntaxError option"

definition maxNestingDepth :: nat where
  "maxNestingDepth = 10000"

definition scanner_reset :: scanner where
  "scanner_reset = \<lparr>step = stateBeginValue, endTop = False, parseState = [], scan_err = None\<rparr>"

text \<open>
  The classes of bytes the scanner tests for: white space, the digits, the digits from 1,
  and the hexadecimal digits.
\<close>

definition isSpace :: "char \<Rightarrow> bool" where
  "isSpace c \<longleftrightarrow> c = CHR '' '' \<or> c = CHR 0x09 \<or> c = CHR 0x0D \<or> c = CHR 0x0A"

definition isDigit :: "char \<Rightarrow> bool" where
  "isDigit c \<longleftrightarrow> c \<in> set ''0123456789''"

definition isDigit19 :: "char \<Rightarrow> bool" where
  "isDigit19 c \<longleftrightarrow> c \<in> set ''123456789''"

definition isHex :: "char \<Rightarrow> bool" where
  "isHex c \<longleftrightarrow> c \<in> set ''0123456789abcdefABCDEF''"

text \<open>
  \<^verbatim>\<open>s.error\<close> records the error and makes every further step fail. Opening an object or an
  array pushes on the stack, to a depth of at most 10000; closing one pops, and ends the
  top-level value when the stack becomes empty.
\<close>

definition scanner_error :: "scanner \<Rightarrow> char \<Rightarrow> string \<Rightarrow> scan_code \<times> scanner" where
  "scanner_error s c context =
     (scanError, s\<lparr>step := stateError, scan_err := Some (invalid_character c context)\<rparr>)"

definition pushParseState ::
  "scanner \<Rightarrow> char \<Rightarrow> parse_state \<Rightarrow> scan_code \<Rightarrow> scan_code \<times> scanner" where
  "pushParseState s c newParseState successState =
     (let s' = s\<lparr>parseState := parseState s @ [newParseState]\<rparr>
      in if length (parseState s') \<le> maxNestingDepth then (successState, s')
         else scanner_error s' c ''exceeded max depth'')"

definition popParseState :: "scanner \<Rightarrow> scanner" where
  "popParseState s =
     (let n = length (parseState s) - 1;
          s' = s\<lparr>parseState := take n (parseState s)\<rparr>
      in if n = 0 then s'\<lparr>step := stateEndTop, endTop := True\<rparr>
         else s'\<lparr>step := stateEndValue\<rparr>)"

text \<open>
  The step functions, one for each state. A byte after the top-level value ends the scan;
  when it is not white space the error is recorded for the next call only.
\<close>

definition stateEndTop_fn :: "scanner \<Rightarrow> char \<Rightarrow> scan_code \<times> scanner" where
  "stateEndTop_fn s c =
     (if \<not> isSpace c then (scanEnd, snd (scanner_error s c ''after top-level value''))
      else (scanEnd, s))"

definition stateEndValue_fn :: "scanner \<Rightarrow> char \<Rightarrow> scan_code \<times> scanner" where
  "stateEndValue_fn s c =
     (let n = length (parseState s)
      in if n = 0 then stateEndTop_fn (s\<lparr>step := stateEndTop, endTop := True\<rparr>) c
         else if isSpace c then (scanSkipSpace, s\<lparr>step := stateEndValue\<rparr>)
         else (case parseState s ! (n - 1) of
                 parseObjectKey \<Rightarrow>
                   (if c = CHR '':''
                    then (scanObjectKey,
                          s\<lparr>parseState := (parseState s)[n - 1 := parseObjectValue],
                            step := stateBeginValue\<rparr>)
                    else scanner_error s c ''after object key'')
               | parseObjectValue \<Rightarrow>
                   (if c = CHR '',''
                    then (scanObjectValue,
                          s\<lparr>parseState := (parseState s)[n - 1 := parseObjectKey],
                            step := stateBeginString\<rparr>)
                    else if c = CHR ''}'' then (scanEndObject, popParseState s)
                    else scanner_error s c ''after object key:value pair'')
               | parseArrayValue \<Rightarrow>
                   (if c = CHR '','' then (scanArrayValue, s\<lparr>step := stateBeginValue\<rparr>)
                    else if c = CHR '']'' then (scanEndArray, popParseState s)
                    else scanner_error s c ''after array element'')))"

definition stateBeginValue_fn :: "scanner \<Rightarrow> char \<Rightarrow> scan_code \<times> scanner" where
  \<open>stateBeginValue_fn s c =
     (if isSpace c then (scanSkipSpace, s)
      else if c = CHR ''{''
        then pushParseState (s\<lparr>step := stateBeginStringOrEmpty\<rparr>) c parseObjectKey scanBeginObject
      else if c = CHR ''[''
        then pushParseState (s\<lparr>step := stateBeginValueOrEmpty\<rparr>) c parseArrayValue scanBeginArray
      else if c = CHR 0x22 then (scanBeginLiteral, s\<lparr>step := stateInString\<rparr>)
      else if c = CHR ''-'' then (scanBeginLiteral, s\<lparr>step := stateNeg\<rparr>)
      else if c = CHR ''0'' then (scanBeginLiteral, s\<lparr>step := state0\<rparr>)
      else if c = CHR ''t'' then (scanBeginLiteral, s\<lparr>step := stateT\<rparr>)
      else if c = CHR ''f'' then (scanBeginLiteral, s\<lparr>step := stateF\<rparr>)
      else if c = CHR ''n'' then (scanBeginLiteral, s\<lparr>step := stateN\<rparr>)
      else if isDigit19 c then (scanBeginLiteral, s\<lparr>step := state1\<rparr>)
      else scanner_error s c ''looking for beginning of value'')\<close>

definition stateBeginValueOrEmpty_fn :: "scanner \<Rightarrow> char \<Rightarrow> scan_code \<times> scanner" where
  "stateBeginValueOrEmpty_fn s c =
     (if isSpace c then (scanSkipSpace, s)
      else if c = CHR '']'' then stateEndValue_fn s c
      else stateBeginValue_fn s c)"

definition stateBeginString_fn :: "scanner \<Rightarrow> char \<Rightarrow> scan_code \<times> scanner" where
  \<open>stateBeginString_fn s c =
     (if isSpace c then (scanSkipSpace, s)
      else if c = CHR 0x22 then (scanBeginLiteral, s\<lparr>step := stateInString\<rparr>)
      else scanner_error s c ''looking for beginning of object key string'')\<close>

definition stateBeginStringOrEmpty_fn :: "scanner \<Rightarrow> char \<Rightarrow> scan_code \<times> scanner" where
  "stateBeginStringOrEmpty_fn s c =
     (if isSpace c then (scanSkipSpace, s)
      else if c = CHR ''}''
        then stateEndValue_fn
               (s\<lparr>parseState := (parseState s)[length (parseState s) - 1 := parseObjectValue]\<rparr>) c
      else stateBeginString_fn s c)"

definition stateInString_fn :: "scanner \<Rightarrow> char \<Rightarrow> scan_code \<times> scanner" where
  \<open>stateInString_fn s c =
     (if c = CHR 0x22 then (scanContinue, s\<lparr>step := stateEndValue\<rparr>)
      else if c = CHR 0x5C then (scanContinue, s\<lparr>step := stateInStringEsc\<rparr>)
      else if (of_char c :: nat) < 32 then scanner_error s c ''in string literal''
      else (scanContinue, s))\<close>

definition stateInStringEsc_fn :: "scanner \<Rightarrow> char \<Rightarrow> scan_code \<times> scanner" where
  \<open>stateInStringEsc_fn s c =
     (if c \<in> {CHR ''b'', CHR ''f'', CHR ''n'', CHR ''r'', CHR ''t'', CHR 0x5C, CHR ''/'', CHR 0x22}
        then (scanContinue, s\<lparr>step := stateInString\<rparr>)
      else if c = CHR ''u'' then (scanContinue, s\<lparr>step := stateInStringEscU\<rparr>)
      else scanner_error s c ''in string escape code'')\<close>

definition hex_then :: "step_state \<Rightarrow> scanner \<Rightarrow> char \<Rightarrow> scan_code \<times> scanner" where
  "hex_then next s c =
     (if isHex c then (scanContinue, s\<lparr>step := next\<rparr>)
      else scanner_error s c (CHR ''i'' # CHR ''n'' # CHR '' '' # CHR 0x5C #
             ''u hexadecimal character escape''))"

definition state0_fn :: "scanner \<Rightarrow> char \<Rightarrow> scan_code \<times> scanner" where
  "state0_fn s c =
     (if c = CHR ''.'' then (scanContinue, s\<lparr>step := stateDot\<rparr>)
      else if c = CHR ''e'' \<or> c = CHR ''E'' then (scanContinue, s\<lparr>step := stateE\<rparr>)
      else stateEndValue_fn s c)"

definition state1_fn :: "scanner \<Rightarrow> char \<Rightarrow> scan_code \<times> scanner" where
  "state1_fn s c =
     (if isDigit c then (scanContinue, s\<lparr>step := state1\<rparr>) else state0_fn s c)"

definition stateNeg_fn :: "scanner \<Rightarrow> char \<Rightarrow> scan_code \<times> scanner" where
  "stateNeg_fn s c =
     (if c = CHR ''0'' then (scanContinue, s\<lparr>step := state0\<rparr>)
      else if isDigit19 c then (scanContinue, s\<lparr>step := state1\<rparr>)
      else scanner_error s c ''in numeric literal'')"

definition stateDot_fn :: "scanner \<Rightarrow> char \<Rightarrow> scan_code \<times> scanner" where
  "stateDot_fn s c =
     (if isDigit c then (scanContinue, s\<lparr>step := stateDot0\<rparr>)
      else scanner_error s c ''after decimal point in numeric literal'')"

definition stateDot0_fn :: "scanner \<Rightarrow> char \<Rightarrow> scan_code \<times> scanner" where
  "stateDot0_fn s c =
     (if isDigit c then (scanContinue, s)
      else if c = CHR ''e'' \<or> c = CHR ''E'' then (scanContinue, s\<lparr>step := stateE\<rparr>)
      else stateEndValue_fn s c)"

definition stateESign_fn :: "scanner \<Rightarrow> char \<Rightarrow> scan_code \<times> scanner" where
  "stateESign_fn s c =
     (if isDigit c then (scanContinue, s\<lparr>step := stateE0\<rparr>)
      else scanner_error s c ''in exponent of numeric literal'')"

definition stateE_fn :: "scanner \<Rightarrow> char \<Rightarrow> scan_code \<times> scanner" where
  "stateE_fn s c =
     (if c = CHR ''+'' \<or> c = CHR ''-'' then (scanContinue, s\<lparr>step := stateESign\<rparr>)
      else stateESign_fn s c)"

definition stateE0_fn :: "scanner \<Rightarrow> char \<Rightarrow> scan_code \<times> scanner" where
  "stateE0_fn s c = (if isDigit c then (scanContinue, s) else stateEndValue_fn s c)"

definition literal_then ::
  "char \<Rightarrow> step_state \<Rightarrow> string \<Rightarrow> scanner \<Rightarrow> char \<Rightarrow> scan_code \<times> scanner" where
  "literal_then expected next literal s c =
     (if c = expected then (scanContinue, s\<lparr>step := next\<rparr>)
      else scanner_error s c
             (''in literal '' @ literal @ '' (expecting '' @ [CHR 0x27, expected, CHR 0x27] @ '')''))"

text \<open>
  One step of the scanner: the function that \<open>step\<close> names, applied to the next byte.
\<close>

definition scanner_step :: "scanner \<Rightarrow> char \<Rightarrow> scan_code \<times> scanner" where
  "scanner_step s c =
     (case step s of
        stateBeginValueOrEmpty \<Rightarrow> stateBeginValueOrEmpty_fn s c
      | stateBeginValue \<Rightarrow> stateBeginValue_fn s c
      | stateBeginStringOrEmpty \<Rightarrow> stateBeginStringOrEmpty_fn s c
      | stateBeginString \<Rightarrow> stateBeginString_fn s c
      | stateEndValue \<Rightarrow> stateEndValue_fn s c
      | stateEndTop \<Rightarrow> stateEndTop_fn s c
      | stateInString \<Rightarrow> stateInString_fn s c
      | stateInStringEsc \<Rightarrow> stateInStringEsc_fn s c
      | stateInStringEscU \<Rightarrow> hex_then stateInStringEscU1 s c
      | stateInStringEscU1 \<Rightarrow> hex_then stateInStringEscU12 s c
      | stateInStringEscU12 \<Rightarrow> hex_then stateInStringEscU123 s c
      | stateInStringEscU123 \<Rightarrow> hex_then stateInString s c
      | stateNeg \<Rightarrow> stateNeg_fn s c
      | state1 \<Rightarrow> state1_fn s c
      | state0 \<Rightarrow> state0_fn s c
      | stateDot \<Rightarrow> stateDot_fn s c
      | stateDot0 \<Rightarrow> stateDot0_fn s c
      | stateE \<Rightarrow> stateE_fn s c
      | stateESign \<Rightarrow> stateESign_fn s c
      | stateE0 \<Rightarrow> stateE0_fn s c
      | stateT \<Rightarrow> literal_then CHR ''r'' stateTr ''true'' s c
      | stateTr \<Rightarrow> literal_then CHR ''u'' stateTru ''true'' s c
      | stateTru \<Rightarrow> literal_then CHR ''e'' stateEndValue ''true'' s c
      | stateF \<Rightarrow> literal_then CHR ''a'' stateFa ''false'' s c
      | stateFa \<Rightarrow> literal_then CHR ''l'' stateFal ''false'' s c
      | stateFal \<Rightarrow> literal_then CHR ''s'' stateFals ''false'' s c
      | stateFals \<Rightarrow> literal_then CHR ''e'' stateEndValue ''false'' s c
      | stateN \<Rightarrow> literal_then CHR ''u'' stateNu ''null'' s c
      | stateNu \<Rightarrow> literal_then CHR ''l'' stateNul ''null'' s c
      | stateNul \<Rightarrow> literal_then CHR ''l'' stateEndValue ''null'' s c
      | stateError \<Rightarrow> (scanError, s))"





text \<open>
  \<^verbatim>\<open>Decoder.readValue\<close> feeds the scanner until the first value ends and returns the number
  of bytes of that value. After the closing brace or bracket of the top-level value it
  stops without looking at the next byte; a number, a literal or a string ends at the
  byte after it, which is not consumed. At the end of the body the value is complete if a
  space would end it; otherwise the fault is \<^verbatim>\<open>io.ErrUnexpectedEOF\<close>, or \<^verbatim>\<open>io.EOF\<close> for a body of
  white space only. A step that fails has recorded its error.
\<close>

datatype read_fault = syntax_fault SyntaxError | io_EOF | io_ErrUnexpectedEOF

fun readValue_loop :: "string \<Rightarrow> scanner \<Rightarrow> nat \<Rightarrow> string \<Rightarrow> read_fault + nat" where
  "readValue_loop buf s scanp [] =
     (if fst (scanner_step s CHR '' '') = scanEnd then Inr scanp
      else if \<exists>c \<in> set buf. \<not> isSpace c then Inl io_ErrUnexpectedEOF
      else Inl io_EOF)"
| "readValue_loop buf s scanp (c # cs) =
     (case scanner_step s c of
        (scanEnd, s') \<Rightarrow> Inr scanp
      | (scanEndObject, s') \<Rightarrow>
          (case stateEndValue_fn s' CHR '' '' of
             (scanEnd, s'') \<Rightarrow> Inr (scanp + 1)
           | (code, s'') \<Rightarrow> readValue_loop buf s'' (scanp + 1) cs)
      | (scanEndArray, s') \<Rightarrow>
          (case stateEndValue_fn s' CHR '' '' of
             (scanEnd, s'') \<Rightarrow> Inr (scanp + 1)
           | (code, s'') \<Rightarrow> readValue_loop buf s'' (scanp + 1) cs)
      | (scanError, s') \<Rightarrow>
          (case scan_err s' of
             Some e \<Rightarrow> Inl (syntax_fault e)
           | None \<Rightarrow> Inl (syntax_fault unexpected_end_of_JSON_input))
      | (code, s') \<Rightarrow> readValue_loop buf s' (scanp + 1) cs)"

definition readValue :: "string \<Rightarrow> read_fault + nat" where
  "readValue buf = readValue_loop buf scanner_reset 0 buf"

text \<open>
  The text of the error that reading returns, and \<^verbatim>\<open>Decode\<close> itself: the value read is the
  first \<open>n\<close> bytes of the body, and whatever follows it is left unread.
\<close>

fun SyntaxError_text :: "(char \<Rightarrow> string) \<Rightarrow> SyntaxError \<Rightarrow> string" where
  "SyntaxError_text quote (invalid_character c context) =
     ''invalid character '' @ quote c @ '' '' @ context"
| "SyntaxError_text quote unexpected_end_of_JSON_input = ''unexpected end of JSON input''"

fun read_fault_text :: "(char \<Rightarrow> string) \<Rightarrow> read_fault \<Rightarrow> string" where
  "read_fault_text quote (syntax_fault e) = SyntaxError_text quote e"
| "read_fault_text quote io_EOF = ''EOF''"
| "read_fault_text quote io_ErrUnexpectedEOF = ''unexpected EOF''"

definition Decoder_Decode :: "world \<Rightarrow> bytes \<Rightarrow> error + ParseRequest" where
  "Decoder_Decode w body =
     (case readValue body of
        Inl fault \<Rightarrow> Inl (Error (read_fault_text (quoteChar w) fault))
      | Inr n \<Rightarrow> json_Unmarshal w (take n body))"


section \<open>The HTTP glue: download, delivery and the two handlers\<close>

text \<open>
  \<^verbatim>\<open>http.NewRequest\<close> fails on a method or URL it cannot parse and otherwise returns a
  request without headers. The functions that send a request return, beside their result,
  the requests they handed to \<^verbatim>\<open>client.Do\<close>, in order; the first argument of \<open>client_Do\<close> is
  the client's timeout in seconds. The lines the program writes to its log are left out.
\<close>

definition http_NewRequest :: "world \<Rightarrow> string \<Rightarrow> string \<Rightarrow> bytes \<Rightarrow> error + Request" where
  "http_NewRequest w method url body =
     (case NewRequest_error w method url of
        Some err \<Rightarrow> Inl err
      | None \<Rightarrow> Inr \<lparr>Method = method, URL = url, Header = Map.empty, Body = body\<rparr>)"

definition downloadDemo :: "world \<Rightarrow> string \<Rightarrow> (error + bytes) \<times> Request list" where
  "downloadDemo w filePath =
     (let supabaseURL = Getenv w ''SUPABASE_URL'';
          serviceRoleKey = Getenv w ''SUPABASE_SERVICE_ROLE_KEY'';
          url = supabaseURL @ ''/storage/v1/object/demos/'' @ filePath
      in case http_NewRequest w ''GET'' url [] of
           Inl err \<Rightarrow> (Inl err, [])
         | Inr req0 \<Rightarrow>
             (let req = req0\<lparr>Header := (Header req0)(''Authorization'' \<mapsto> ''Bearer '' @ serviceRoleKey)\<rparr>
              in case client_Do w 120 req of
                   Inl err \<Rightarrow> (Inl err, [req])
                 | Inr resp \<Rightarrow>
                     if StatusCode resp \<noteq> 200
                     then (Inl (Error (''failed to download demo: status '' @
                                       fmt_d_int (sint (StatusCode resp)))), [req])
                     else (case ReadAll resp of
                             (data, None) \<Rightarrow> (Inr data, [req])
                           | (data, Some err) \<Rightarrow> (Inl err, [req]))))"

definition sendToWebhook :: "world \<Rightarrow> ParsedData \<Rightarrow> error option \<times> Request list" where
  "sendToWebhook w data =
     (let webhookURL = Getenv w ''WEBHOOK_URL'';
          secret = Getenv w ''GO_SERVICE_SECRET''
      in case json_Marshal w data of
           Inl err \<Rightarrow> (Some err, [])
         | Inr jsonData \<Rightarrow>
             (case http_NewRequest w ''POST'' webhookURL jsonData of
                Inl err \<Rightarrow> (Some err, [])
              | Inr req0 \<Rightarrow>
                  (let req = req0\<lparr>Header := (Header req0)
                               (''Content-Type'' \<mapsto> ''application/json'',
                                ''Authorization'' \<mapsto> ''Bearer '' @ secret)\<rparr>
                   in case client_Do w 30 req of
                        Inl err \<Rightarrow> (Some err, [req])
                      | Inr resp \<Rightarrow>
                          if StatusCode resp \<noteq> 200
                          then (Some (Error (''webhook returned status '' @
                                             fmt_d_int (sint (StatusCode resp)) @ '': '' @
                                             fst (ReadAll resp))), [req])
                          else (None, [req]))))"

text \<open>
  What a handler has written to its \<^verbatim>\<open>http.ResponseWriter\<close>: the status, the headers the
  program set and the body. \<^verbatim>\<open>http.Error\<close> sets a plain-text content type and writes the
  message and a newline.
\<close>

record ResponseWriter =
  Status :: nat
  ResponseHeader :: "string \<rightharpoonup> string"
  Written :: string

definition StatusOK :: nat where "StatusOK = 200"
definition StatusBadRequest :: nat where "StatusBadRequest = 400"
definition StatusMethodNotAllowed :: nat where "StatusMethodNotAllowed = 405"
definition StatusInternalServerError :: nat where "StatusInternalServerError = 500"

definition http_Error :: "string \<Rightarrow> nat \<Rightarrow> ResponseWriter" where
  "http_Error msg code =
     \<lparr>Status = code,
      ResponseHeader = [''Content-Type'' \<mapsto> ''text/plain; charset=utf-8'',
                        ''X-Content-Type-Options'' \<mapsto> ''nosniff''],
      Written = msg @ [CHR 0x0A]\<rparr>"

definition healthHandler :: "Request \<Rightarrow> ResponseWriter" where
  "healthHandler r = \<lparr>Status = StatusOK, ResponseHeader = Map.empty, Written = ''OK''\<rparr>"

text \<open>
  The body on success is what \<^verbatim>\<open>json.NewEncoder(w).Encode\<close> writes for the one-entry map:
  the object and a newline.
\<close>

definition parseHandler :: \<open>world \<Rightarrow> Request \<Rightarrow> ResponseWriter \<times> Request list\<close> where
  \<open>parseHandler w r =
     (if Method r \<noteq> ''POST'' then (http_Error ''Method not allowed'' StatusMethodNotAllowed, [])
      else case Decoder_Decode w (Body r) of
        Inl err \<Rightarrow> (http_Error (Error_text err) StatusBadRequest, [])
      | Inr req \<Rightarrow>
          (case downloadDemo w (FilePath req) of
             (Inl err, sent) \<Rightarrow> (http_Error (Error_text err) StatusInternalServerError, sent)
           | (Inr demoData, sent) \<Rightarrow>
               (case parseDemo w (ParseRequest.DemoID req) demoData of
                  Inl err \<Rightarrow> (http_Error (Error_text err) StatusInternalServerError, sent)
                | Inr parsedData \<Rightarrow>
                    (case sendToWebhook w parsedData of
                       (Some err, sent') \<Rightarrow>
                         (http_Error (Error_text err) StatusInternalServerError, sent @ sent')
                     | (None, sent') \<Rightarrow>
                         (\<lparr>Status = StatusOK,
                           ResponseHeader = Map.empty,
                           Written = ''{"status":"success"}'' @ [CHR 0x0A]\<rparr>,
                          sent @ sent')))))\<close>


section \<open>Vocabulary of the properties\<close>

text \<open>The kind of a signal.\<close>

fun is_RoundStart :: "signal \<Rightarrow> bool" where
  "is_RoundStart (EvRoundStart e, gs) = True"
| "is_RoundStart (ev, gs) = False"

fun is_RoundEnd :: "signal \<Rightarrow> bool" where
  "is_RoundEnd (EvRoundEnd e, gs) = True"
| "is_RoundEnd (ev, gs) = False"

fun is_Kill :: "signal \<Rightarrow> bool" where
  "is_Kill (EvKill e, gs) = True"
| "is_Kill (ev, gs) = False"

text \<open>
  The counts of an identity, 0 while it has no accumulator; the accumulator that
  \<open>getOrCreatePlayer\<close> creates at a first sighting; and what one guarded block of the kill
  handler (get or create, then add one through the pointer) does to the map.
\<close>

definition kills_of :: "(uint64 \<rightharpoonup> Player) \<Rightarrow> uint64 \<Rightarrow> go_int" where
  "kills_of stats k = (case stats k of None \<Rightarrow> 0 | Some p \<Rightarrow> Kills p)"

definition deaths_of :: "(uint64 \<rightharpoonup> Player) \<Rightarrow> uint64 \<Rightarrow> go_int" where
  "deaths_of stats k = (case stats k of None \<Rightarrow> 0 | Some p \<Rightarrow> Deaths p)"

definition assists_of :: "(uint64 \<rightharpoonup> Player) \<Rightarrow> uint64 \<Rightarrow> go_int" where
  "assists_of stats k = (case stats k of None \<Rightarrow> 0 | Some p \<Rightarrow> Assists p)"

definition fresh_Player :: "common_Player \<Rightarrow> Player" where
  "fresh_Player cp =
     \<lparr>SteamID = fmt_d_nat (unat (SteamID64 cp)),
      Name = common_Player.Name cp,
      Team = (if common_Player.Team cp = TeamTerrorists then ''T''
              else if common_Player.Team cp = TeamCounterTerrorists then ''CT''
              else ''spectator''),
      Kills = 0, Deaths = 0, Assists = 0,
      ADR = Finite 0, HSP = Finite 0, KAST = Finite 0, Rating = Finite 0,
      Stats = Map.empty\<rparr>"

definition credited ::
  "(uint64 \<rightharpoonup> Player) \<Rightarrow> common_Player option \<Rightarrow> (Player \<Rightarrow> Player) \<Rightarrow> (uint64 \<rightharpoonup> Player)" where
  "credited stats po f =
     (case po of
        None \<Rightarrow> stats
      | Some cp \<Rightarrow>
          stats(SteamID64 cp \<mapsto>
            f (case stats (SteamID64 cp) of None \<Rightarrow> fresh_Player cp | Some p \<Rightarrow> p)))"

text \<open>
  The first of killer, victim and assister of a kill, in the order the handler treats them,
  that has the identity \<open>k\<close>.
\<close>

definition first_sighting :: "Kill \<Rightarrow> uint64 \<Rightarrow> common_Player option" where
  "first_sighting e k =
     List.find (\<lambda>cp. SteamID64 cp = k) (List.map_filter id [Killer e, Victim e, Assister e])"

text \<open>
  Every accumulator carries, as its \<open>SteamID\<close>, the decimal form of the key it is stored
  under; an identity has an accumulator with a given name and team label; and the number
  that a string of decimal digits denotes.
\<close>

definition keyed_by_identity :: "(uint64 \<rightharpoonup> Player) \<Rightarrow> bool" where
  "keyed_by_identity stats \<longleftrightarrow> (\<forall>k p. stats k = Some p \<longrightarrow> SteamID p = fmt_d_nat (unat k))"

definition labelled :: "(uint64 \<rightharpoonup> Player) \<Rightarrow> uint64 \<Rightarrow> string \<Rightarrow> string \<Rightarrow> bool" where
  "labelled stats k name team \<longleftrightarrow> (\<exists>p. stats k = Some p \<and> Name p = name \<and> Team p = team)"

definition digits_value :: "string \<Rightarrow> nat" where
  "digits_value cs = foldl (\<lambda>acc c. 10 * acc + (of_char c - 48)) 0 cs"










section \<open>Example inputs\<close>

text \<open>
  The stream of the specification's example: a round start at tick 0, a headshot kill of V
  by K, and a round end at tick 1280, in a world where every outside call succeeds. Then
  the same kill with an assister, the same kill after K has changed name and side, a
  request to \<^verbatim>\<open>/parse\<close>, the same request with two more bytes after the JSON object, a
  replay that is cut short after two signals, and the example stream parsed to its end.
\<close>

definition example_K :: common_Player where
  "example_K = \<lparr>SteamID64 = 76561198000000001, common_Player.Name = ''K'',
                 common_Player.Team = TeamTerrorists\<rparr>"

definition example_V :: common_Player where
  "example_V = \<lparr>SteamID64 = 76561198000000002, common_Player.Name = ''V'',
                 common_Player.Team = TeamCounterTerrorists\<rparr>"

definition example_A :: common_Player where
  "example_A = \<lparr>SteamID64 = 76561198000000003, common_Player.Name = ''A'',
                 common_Player.Team = TeamTerrorists\<rparr>"

definition example_gs :: "go_int \<Rightarrow> go_int \<Rightarrow> go_int \<Rightarrow> GameState" where
  "example_gs tick ct t = \<lparr>IngameTick = tick, CT_Score = ct, T_Score = t\<rparr>"

definition example_start :: RoundStart where
  "example_start = \<lparr>TimeLimit = 115, FragLimit = 0, Objective = ''BOMB TARGET''\<rparr>"

definition example_end :: RoundEnd where
  "example_end = \<lparr>Message = [], Reason_String = ''elimination'', Winner_String = ''CT''\<rparr>"

definition example_kill :: Kill where
  "example_kill = \<lparr>Killer = Some example_K, Victim = Some example_V, Assister = None,
                    Weapon_String = ''ak47'', IsHeadshot = True, PenetratedObjects = 0\<rparr>"

definition example_kill_assisted :: Kill where
  "example_kill_assisted = example_kill\<lparr>Assister := Some example_A\<rparr>"

definition example_kill_switched :: Kill where
  "example_kill_switched =
     example_kill\<lparr>Killer := Some (example_K\<lparr>common_Player.Name := ''K2'',
                                               common_Player.Team := TeamCounterTerrorists\<rparr>)\<rparr>"

definition example_stream :: "signal list" where
  "example_stream =
     [(EvRoundStart example_start, example_gs 0 0 0),
      (EvKill example_kill, example_gs 640 0 0),
      (EvRoundEnd example_end, example_gs 1280 1 0)]"

definition example_header :: DemoHeader where
  "example_header = \<lparr>DemoHeader.MapName = ''de_dust2'', PlaybackTime_Seconds = Finite 10.5,
                      FrameRate = Finite 63.75\<rparr>"

definition example_world :: "parse_run \<Rightarrow> world" where
  \<open>example_world p =
     \<lparr>Getenv = (\<lambda>name. []),
      NewRequest_error = (\<lambda>method url. None),
      client_Do = (\<lambda>timeout req. Inr \<lparr>StatusCode = 200, ReadAll = (''demo'', None)\<rparr>),
      json_Unmarshal = (\<lambda>v. if v = ''{"demoId":"d1","filePath":"d1.dem"}''
                           then Inr \<lparr>ParseRequest.DemoID = ''d1'', FilePath = ''d1.dem''\<rparr>
                           else Inl (Error ''json: cannot unmarshal'')),
      quoteChar = (\<lambda>c. [CHR 0x27, c, CHR 0x27]),
      json_Marshal = (\<lambda>data. Inr ''{}''),
      ParseToEnd = (\<lambda>data. p),
      range_order = (\<lambda>stats. filter (\<lambda>k. stats k \<noteq> None)
                       [SteamID64 example_K, SteamID64 example_V, SteamID64 example_A]),
      float64_out_of_range = (\<lambda>f. - (2 ^ 63))\<rparr>\<close>

definition example_request :: Request where
  \<open>example_request =
     \<lparr>Method = ''POST'', URL = ''/parse'', Header = Map.empty,
      Body = ''{"demoId":"d1","filePath":"d1.dem"}''\<rparr>\<close>


definition example_fault :: parse_run where
  "example_fault =
     \<lparr>dispatched = [(EvRoundStart example_start, example_gs 0 0 0),
                    (EvKill example_kill, example_gs 640 0 0)],
      finished = Inl (Error ''demo stream ended unexpectedly'')\<rparr>"

definition example_run :: parse_run where
  "example_run = \<lparr>dispatched = example_stream, finished = Inr example_header\<rparr>"


section \<open>How the handlers' variables evolve\<close>

lemma run_handlers_Nil [simp]: "run_handlers s [] = s"
  by (simp add: run_handlers_def)

lemma run_handlers_Cons [simp]: "run_handlers s (sg # sigs) = run_handlers (dispatch s sg) sigs"
  by (simp add: run_handlers_def)

lemma run_handlers_append: "run_handlers s (xs @ ys) = run_handlers (run_handlers s xs) ys"
  by (simp add: run_handlers_def)

lemma dispatch_currentRound:
  "currentRound (dispatch s sg) = (if is_RoundStart sg then currentRound s + 1 else currentRound s)"
  by (cases "(s, sg)" rule: dispatch.cases) (simp_all add: on_RoundStart_def on_RoundEnd_def on_Kill_def Let_def)

lemma dispatch_startTick:
  "startTick (dispatch s sg) = (if is_RoundStart sg then IngameTick (snd sg) else startTick s)"
  by (cases "(s, sg)" rule: dispatch.cases) (simp_all add: on_RoundStart_def on_RoundEnd_def on_Kill_def Let_def)

lemma dispatch_Rounds_other:
  "\<not> is_RoundEnd sg \<Longrightarrow> Rounds (parsed (dispatch s sg)) = Rounds (parsed s)"
  by (cases "(s, sg)" rule: dispatch.cases) (simp_all add: on_RoundStart_def on_Kill_def Let_def)

lemma dispatch_Rounds_end:
  "Rounds (parsed (dispatch s (EvRoundEnd e, gs))) = Rounds (parsed s) @
          [\<lparr>Round.RoundNumber = currentRound s, WinnerSide = Winner_String e,
            WinReason = Reason_String e, CTScore = CT_Score gs, TScore = T_Score gs,
            DurationSeconds = go_div (IngameTick gs - startTick s) 128, RoundData = Map.empty\<rparr>]"
  by (simp add: on_RoundEnd_def)

lemma run_currentRound:
  "currentRound (run_handlers s sigs) = currentRound s + of_nat (length (filter is_RoundStart sigs))"
  by (induction sigs arbitrary: s) (simp_all add: dispatch_currentRound)

lemma run_startTick_unchanged:
  "\<forall>sg \<in> set sigs. \<not> is_RoundStart sg \<Longrightarrow> startTick (run_handlers s sigs) = startTick s"
  by (induction sigs arbitrary: s) (simp_all add: dispatch_startTick)

lemma run_Rounds_unchanged:
  "\<forall>sg \<in> set sigs. \<not> is_RoundEnd sg \<Longrightarrow> Rounds (parsed (run_handlers s sigs)) = Rounds (parsed s)"
  by (induction sigs arbitrary: s) (simp_all add: dispatch_Rounds_other)

lemma run_currentRound_unchanged:
  "\<forall>sg \<in> set sigs. \<not> is_RoundStart sg \<Longrightarrow> currentRound (run_handlers s sigs) = currentRound s"
  by (induction sigs arbitrary: s) (simp_all add: dispatch_currentRound)

lemma run_startTick_after_start:
  "\<forall>sg \<in> set sigs. \<not> is_RoundStart sg \<Longrightarrow>
     startTick (run_handlers s ((EvRoundStart e, gs) # sigs)) = IngameTick gs"
  by (simp add: run_startTick_unchanged on_RoundStart_def)

lemma dispatch_Events_other:
  "\<not> is_Kill sg \<Longrightarrow> Events (parsed (dispatch s sg)) = Events (parsed s)"
  by (cases "(s, sg)" rule: dispatch.cases) (simp_all add: on_RoundStart_def on_RoundEnd_def)

lemma dispatch_Events_kill:
  "\<exists>d. Events (parsed (dispatch s (EvKill e, gs))) = Events (parsed s) @
     [\<lparr>EventType = ''kill'', Tick = IngameTick gs, RoundNumber = currentRound s, EventData = d\<rparr>]"
  by (simp add: on_Kill_def Let_def)

lemma run_Events_grow:
  "\<exists>ys. Events (parsed (run_handlers s sigs)) = Events (parsed s) @ ys \<and>
        length ys = length (filter is_Kill sigs)"
proof (induction sigs arbitrary: s)
  case Nil
  then show ?case by simp
next
  case (Cons sg sigs)
  obtain ys where ys: "Events (parsed (run_handlers (dispatch s sg) sigs)) =
      Events (parsed (dispatch s sg)) @ ys" "length ys = length (filter is_Kill sigs)"
    using Cons.IH by blast
  show ?case
  proof (cases "is_Kill sg")
    case True
    then obtain e gs where sg: "sg = (EvKill e, gs)"
      by (cases sg rule: is_Kill.cases) simp_all
    obtain d where "Events (parsed (dispatch s sg)) = Events (parsed s) @
        [\<lparr>EventType = ''kill'', Tick = IngameTick gs, RoundNumber = currentRound s, EventData = d\<rparr>]"
      using dispatch_Events_kill sg by blast
    with ys True show ?thesis by simp
  next
    case False
    with ys show ?thesis by (simp add: dispatch_Events_other)
  qed
qed

lemma run_Rounds_grow:
  "\<exists>ys. Rounds (parsed (run_handlers s sigs)) = Rounds (parsed s) @ ys \<and>
        length ys = length (filter is_RoundEnd sigs)"
proof (induction sigs arbitrary: s)
  case Nil
  then show ?case by simp
next
  case (Cons sg sigs)
  obtain ys where ys: "Rounds (parsed (run_handlers (dispatch s sg) sigs)) =
      Rounds (parsed (dispatch s sg)) @ ys" "length ys = length (filter is_RoundEnd sigs)"
    using Cons.IH by blast
  show ?case
  proof (cases "is_RoundEnd sg")
    case True
    then obtain e gs where sg: "sg = (EvRoundEnd e, gs)"
      by (cases sg rule: is_RoundEnd.cases) simp_all
    with ys True show ?thesis by (simp add: on_RoundEnd_def)
  next
    case False
    with ys show ?thesis by (simp add: dispatch_Rounds_other)
  qed
qed

lemma parseDemo_clean:
  assumes "finished (ParseToEnd w data) = Inr header"
  shows "\<exists>pd. parseDemo w demoID data = Inr pd \<and>
           Rounds pd = Rounds (parsed (run_handlers (initial_state demoID) (dispatched (ParseToEnd w data)))) \<and>
           Events pd = Events (parsed (run_handlers (initial_state demoID) (dispatched (ParseToEnd w data))))"
  using assms by (simp add: parseDemo_def Let_def)

lemma abs_div_128_le: "\<bar>x::int\<bar> div 128 \<le> \<bar>x\<bar>"
  by linarith

lemma sdiv_128_trunc: "(d::int) sdiv 128 = (if 0 \<le> d then d div 128 else - ((- d) div 128))"
  by (simp add: signed_divide_int_def sgn_if)

lemma sdiv_128_bounds:
  assumes "- (2 ^ 63) \<le> (x::int)" "x < 2 ^ 63"
  shows "- (2 ^ 63) \<le> x sdiv 128 \<and> x sdiv 128 < 2 ^ 63"
  using assms unfolding sdiv_128_trunc by (auto; linarith)

lemma sint_go_div_128: "sint (go_div a 128) = sint a sdiv 128"
proof -
  have "- (2 ^ 63) \<le> sint a" "sint a < 2 ^ 63"
    using sint_ge [of a] sint_lt [of a] by simp_all
  then have "- (2 ^ 63) \<le> sint a sdiv 128 \<and> sint a sdiv 128 < 2 ^ 63"
    by (rule sdiv_128_bounds)
  then show ?thesis
    by (simp add: go_div_def sint_sbintrunc' signed_take_bit_int_eq_self)
qed

lemma sint_minus_no_overflow:
  fixes a b :: go_int
  assumes "- (2 ^ 63) \<le> sint a - sint b" "sint a - sint b < 2 ^ 63"
  shows "sint (a - b) = sint a - sint b"
  using assms by (simp add: sint_word_ariths signed_take_bit_int_eq_self)

lemma sint_of_nat_small:
  assumes "N < 2 ^ 63"
  shows "sint (of_nat N :: go_int) = int N"
proof -
  have "int N < 2 ^ 63" using assms by simp
  moreover have "- (2 ^ 63) \<le> int N" by simp
  ultimately show ?thesis
    by (simp add: signed_of_nat signed_take_bit_int_eq_self)
qed


section \<open>Decimal formatting\<close>

lemma fmt_d_nat_digit: "n < 10 \<Longrightarrow> fmt_d_nat n = [digit_char n]"
  by (subst fmt_d_nat.simps) simp

lemma fmt_d_nat_more:
  "\<not> n < 10 \<Longrightarrow> fmt_d_nat n = fmt_d_nat (n div 10) @ [digit_char (n mod 10)]"
  by (subst fmt_d_nat.simps) simp

lemma digits_value_snoc: "digits_value (cs @ [c]) = 10 * digits_value cs + (of_char c - 48)"
  by (simp add: digits_value_def)

lemma of_char_digit_char: "d < 10 \<Longrightarrow> (of_char (digit_char d) :: nat) = 48 + d"
proof -
  assume "d < 10"
  then have "d \<in> {0, 1, 2, 3, 4, 5, 6, 7, 8, 9}" by auto
  then show ?thesis
    by (auto simp: digit_char_def)
qed

lemma digits_value_fmt_d_nat: "digits_value (fmt_d_nat n) = n"
proof (induction n rule: fmt_d_nat.induct)
  case (1 n)
  show ?case
  proof (cases "n < 10")
    case True
    then show ?thesis
      by (simp add: fmt_d_nat_digit digits_value_def of_char_digit_char)
  next
    case False
    then have "digits_value (fmt_d_nat (n div 10)) = n div 10"
      using "1.IH" by simp
    with False show ?thesis
      by (simp add: fmt_d_nat_more digits_value_snoc of_char_digit_char)
  qed
qed

lemma fmt_d_nat_inj: "fmt_d_nat m = fmt_d_nat n \<Longrightarrow> m = n"
  by (metis digits_value_fmt_d_nat)


section \<open>The kill handler's bookkeeping\<close>

lemma assign_getOrCreate:
  "assign_through (getOrCreatePlayer stats (Some cp)) f = credited stats (Some cp) f"
  by (simp add: assign_through_def getOrCreatePlayer_def credited_def fresh_Player_def Let_def
      split: option.splits)

lemma guarded_block:
  "(if po \<noteq> None then assign_through (getOrCreatePlayer stats po) f else stats) =
     credited stats po f"
  by (cases po) (simp_all add: assign_getOrCreate, simp add: credited_def)

lemma on_Kill_playerStats:
  "playerStats (on_Kill s e gs) =
     credited (credited (credited (playerStats s)
       (Killer e) (\<lambda>killer. killer\<lparr>Kills := Kills killer + 1\<rparr>))
       (Victim e) (\<lambda>victim. victim\<lparr>Deaths := Deaths victim + 1\<rparr>))
       (Assister e) (\<lambda>assister. assister\<lparr>Assists := Assists assister + 1\<rparr>)"
  unfolding on_Kill_def Let_def guarded_block by simp

lemma credited_None [simp]: "credited stats None f = stats"
  by (simp add: credited_def)

lemma credited_other:
  "\<forall>cp. po = Some cp \<longrightarrow> SteamID64 cp \<noteq> k \<Longrightarrow> credited stats po f k = stats k"
  by (cases po) (simp_all add: credited_def)

lemma kills_of_credited_keep:
  "(\<And>p. Kills (f p) = Kills p) \<Longrightarrow> kills_of (credited stats po f) k = kills_of stats k"
  by (cases po) (simp_all add: credited_def kills_of_def fresh_Player_def split: option.splits)

lemma deaths_of_credited_keep:
  "(\<And>p. Deaths (f p) = Deaths p) \<Longrightarrow> deaths_of (credited stats po f) k = deaths_of stats k"
  by (cases po) (simp_all add: credited_def deaths_of_def fresh_Player_def split: option.splits)

lemma assists_of_credited_keep:
  "(\<And>p. Assists (f p) = Assists p) \<Longrightarrow> assists_of (credited stats po f) k = assists_of stats k"
  by (cases po) (simp_all add: credited_def assists_of_def fresh_Player_def split: option.splits)


lemma kills_of_credited:
  "kills_of (credited stats po (\<lambda>p. p\<lparr>Kills := Kills p + 1\<rparr>)) k =
     kills_of stats k + (if \<exists>cp. po = Some cp \<and> SteamID64 cp = k then 1 else 0)"
  by (cases po) (simp_all add: credited_def kills_of_def fresh_Player_def split: option.splits)

lemma deaths_of_credited:
  "deaths_of (credited stats po (\<lambda>p. p\<lparr>Deaths := Deaths p + 1\<rparr>)) k =
     deaths_of stats k + (if \<exists>cp. po = Some cp \<and> SteamID64 cp = k then 1 else 0)"
  by (cases po) (simp_all add: credited_def deaths_of_def fresh_Player_def split: option.splits)

lemma assists_of_credited:
  "assists_of (credited stats po (\<lambda>p. p\<lparr>Assists := Assists p + 1\<rparr>)) k =
     assists_of stats k + (if \<exists>cp. po = Some cp \<and> SteamID64 cp = k then 1 else 0)"
  by (cases po) (simp_all add: credited_def assists_of_def fresh_Player_def split: option.splits)

lemma credited_identity:
  assumes "stats k = Some p"
    and "\<And>q. SteamID (f q) = SteamID q" "\<And>q. Name (f q) = Name q" "\<And>q. Team (f q) = Team q"
  shows "\<exists>p'. credited stats po f k = Some p' \<and> SteamID p' = SteamID p
           \<and> Name p' = Name p \<and> Team p' = Team p"
  using assms by (cases po) (auto simp: credited_def)

lemma on_Kill_Events:
  "Events (parsed (on_Kill s e gs)) = Events (parsed s) @
     [\<lparr>EventType = ''kill'', Tick = IngameTick gs, RoundNumber = currentRound s,
       EventData = [''killer'' \<mapsto> String_value (getPlayerName (Killer e)),
                    ''victim'' \<mapsto> String_value (getPlayerName (Victim e)),
                    ''weapon'' \<mapsto> String_value (Weapon_String e),
                    ''isHeadshot'' \<mapsto> Bool_value (IsHeadshot e),
                    ''penetrated'' \<mapsto> Int_value (PenetratedObjects e)]\<rparr>]"
  by (simp add: on_Kill_def Let_def)


lemma credited_keyed:
  assumes "keyed_by_identity stats" and "\<And>p. SteamID (f p) = SteamID p"
  shows "keyed_by_identity (credited stats po f)"
  using assms
  by (cases po)
     (auto simp: keyed_by_identity_def credited_def fresh_Player_def split: option.splits if_splits)

lemma on_Kill_keyed:
  "keyed_by_identity (playerStats s) \<Longrightarrow> keyed_by_identity (playerStats (on_Kill s e gs))"
  unfolding on_Kill_playerStats by (intro credited_keyed) simp_all

lemma dispatch_keyed:
  "keyed_by_identity (playerStats s) \<Longrightarrow> keyed_by_identity (playerStats (dispatch s sg))"
  by (cases "(s, sg)" rule: dispatch.cases)
     (simp_all add: on_Kill_keyed on_RoundStart_def on_RoundEnd_def)

lemma run_keyed:
  "keyed_by_identity (playerStats s) \<Longrightarrow> keyed_by_identity (playerStats (run_handlers s sigs))"
  by (induction sigs arbitrary: s) (simp_all add: dispatch_keyed del: dispatch.simps)

lemma initial_keyed: "keyed_by_identity (playerStats (initial_state demoID))"
  by (simp add: keyed_by_identity_def initial_state_def)

lemma keyed_distinct:
  assumes "keyed_by_identity stats" "stats k = Some p" "stats k' = Some p'" "SteamID p = SteamID p'"
  shows "k = k'"
proof -
  have "fmt_d_nat (unat k) = fmt_d_nat (unat k')"
    using assms by (simp add: keyed_by_identity_def)
  then have "unat k = unat k'"
    by (rule fmt_d_nat_inj)
  then show ?thesis
    using word_unat_eq_iff by blast
qed

lemma credited_labelled:
  assumes "labelled stats k name team" and "\<And>p. Name (f p) = Name p" and "\<And>p. Team (f p) = Team p"
  shows "labelled (credited stats po f) k name team"
  using assms by (cases po) (auto simp: labelled_def credited_def)

lemma on_Kill_labelled:
  "labelled (playerStats s) k name team \<Longrightarrow> labelled (playerStats (on_Kill s e gs)) k name team"
  unfolding on_Kill_playerStats by (intro credited_labelled) simp_all

lemma dispatch_labelled:
  "labelled (playerStats s) k name team \<Longrightarrow> labelled (playerStats (dispatch s sg)) k name team"
  by (cases "(s, sg)" rule: dispatch.cases)
     (simp_all add: on_Kill_labelled on_RoundStart_def on_RoundEnd_def)

lemma run_labelled:
  "labelled (playerStats s) k name team \<Longrightarrow> labelled (playerStats (run_handlers s sigs)) k name team"
  by (induction sigs arbitrary: s) (simp_all add: dispatch_labelled del: dispatch.simps)

lemma credited_first:
  assumes "stats (SteamID64 cp) = None" and "\<And>p. Name (f p) = Name p" and "\<And>p. Team (f p) = Team p"
  shows "labelled (credited stats (Some cp) f) (SteamID64 cp)
           (Name (fresh_Player cp)) (Team (fresh_Player cp))"
  using assms by (simp add: labelled_def credited_def)

lemma credited_absent:
  "stats k = None \<Longrightarrow> \<forall>cp. po = Some cp \<longrightarrow> SteamID64 cp \<noteq> k \<Longrightarrow> credited stats po f k = None"
  by (simp add: credited_other)

lemma first_sighting_cases:
  assumes "first_sighting e k = Some cp"
  shows "(Killer e = Some cp \<and> SteamID64 cp = k)
       \<or> ((\<forall>c. Killer e = Some c \<longrightarrow> SteamID64 c \<noteq> k) \<and> Victim e = Some cp \<and> SteamID64 cp = k)
       \<or> ((\<forall>c. Killer e = Some c \<longrightarrow> SteamID64 c \<noteq> k) \<and> (\<forall>c. Victim e = Some c \<longrightarrow> SteamID64 c \<noteq> k)
            \<and> Assister e = Some cp \<and> SteamID64 cp = k)"
  using assms
  by (cases "Killer e"; cases "Victim e"; cases "Assister e")
     (auto simp: first_sighting_def List.map_filter_simps split: if_splits)

lemma on_Kill_first_sighting:
  assumes "playerStats s k = None" and "first_sighting e k = Some cp"
  shows "labelled (playerStats (on_Kill s e gs)) k (Name (fresh_Player cp)) (Team (fresh_Player cp))"
proof -
  let ?incK = "\<lambda>killer. killer\<lparr>Kills := Kills killer + 1\<rparr>"
  let ?incD = "\<lambda>victim. victim\<lparr>Deaths := Deaths victim + 1\<rparr>"
  let ?incA = "\<lambda>assister. assister\<lparr>Assists := Assists assister + 1\<rparr>"
  let ?st0 = "playerStats s"
  let ?st1 = "credited ?st0 (Killer e) ?incK"
  let ?st2 = "credited ?st1 (Victim e) ?incD"
  let ?st3 = "credited ?st2 (Assister e) ?incA"
  let ?L = "\<lambda>st. labelled st k (Name (fresh_Player cp)) (Team (fresh_Player cp))"
  from first_sighting_cases [OF assms(2)] consider
      (killer) "Killer e = Some cp" "SteamID64 cp = k"
    | (victim) "\<forall>c. Killer e = Some c \<longrightarrow> SteamID64 c \<noteq> k" "Victim e = Some cp" "SteamID64 cp = k"
    | (assister) "\<forall>c. Killer e = Some c \<longrightarrow> SteamID64 c \<noteq> k"
        "\<forall>c. Victim e = Some c \<longrightarrow> SteamID64 c \<noteq> k" "Assister e = Some cp" "SteamID64 cp = k"
    by blast
  then have "?L ?st3"
  proof cases
    case killer
    have "?L ?st1"
      using credited_first [of ?st0 cp ?incK] assms(1) killer by simp
    then have "?L ?st2" by (rule credited_labelled) simp_all
    then show ?thesis by (rule credited_labelled) simp_all
  next
    case victim
    have "?st1 k = None"
      using assms(1) victim(1) by (rule credited_absent)
    then have "?L ?st2"
      using credited_first [of ?st1 cp ?incD] victim by simp
    then show ?thesis by (rule credited_labelled) simp_all
  next
    case assister
    have "?st1 k = None"
      using assms(1) assister(1) by (rule credited_absent)
    then have "?st2 k = None"
      using assister(2) by (rule credited_absent)
    then show ?thesis
      using credited_first [of ?st2 cp ?incA] assister by simp
  qed
  then show ?thesis
    by (simp only: on_Kill_playerStats)
qed


section \<open>The decoder's scanner\<close>

lemmas fn_defs = scanner_step_def stateBeginValueOrEmpty_fn_def stateBeginValue_fn_def
  stateBeginStringOrEmpty_fn_def stateBeginString_fn_def stateEndValue_fn_def stateEndTop_fn_def
  stateInString_fn_def stateInStringEsc_fn_def hex_then_def stateNeg_fn_def state1_fn_def
  state0_fn_def stateDot_fn_def stateDot0_fn_def stateE_fn_def stateESign_fn_def stateE0_fn_def
  literal_then_def scanner_error_def pushParseState_def popParseState_def isSpace_def isDigit_def isDigit19_def
  isHex_def maxNestingDepth_def scanner_reset_def

lemma scanner_error_code [simp]: "fst (scanner_error s c context) = scanError"
  by (simp add: scanner_error_def)

lemma scanner_error_eq [simp]:
  "scanner_error s c context = (code, s') \<longleftrightarrow>
     code = scanError \<and> s' = s\<lparr>step := stateError, scan_err := Some (invalid_character c context)\<rparr>"
  by (auto simp: scanner_error_def)

lemma space_facts [simp]:
  "isSpace CHR '' ''" "\<not> isDigit CHR '' ''" "\<not> isDigit19 CHR '' ''" "\<not> isHex CHR '' ''"
  by (simp_all add: isSpace_def isDigit_def isDigit19_def isHex_def)


















section \<open>The glue and the header conversion\<close>

lemma downloadDemo_sent:
  "\<forall>q \<in> set (snd (downloadDemo w filePath)).
     Method q = ''GET'' \<and>
     URL q = Getenv w ''SUPABASE_URL'' @ ''/storage/v1/object/demos/'' @ filePath"
  by (auto simp: downloadDemo_def http_NewRequest_def Let_def
      split: sum.splits option.splits prod.splits if_splits)

lemma parseDemo_fault:
  "finished (ParseToEnd w data) = Inl err \<Longrightarrow> parseDemo w demoID data = Inl err"
  by (simp add: parseDemo_def Let_def)

lemma example_download:
  "\<exists>sent. downloadDemo (example_world p) ''d1.dem'' = (Inr ''demo'', sent)"
  by (simp add: downloadDemo_def http_NewRequest_def example_world_def Let_def)


lemma example_decode:
  "Decoder_Decode (example_world p) (Body example_request) =
     Inr \<lparr>ParseRequest.DemoID = ''d1'', FilePath = ''d1.dem''\<rparr>"
  by (simp add: Decoder_Decode_def readValue_def fn_defs example_world_def example_request_def)





lemma sint_word_of_int_fits:
  "- (2 ^ 63) \<le> i \<Longrightarrow> i < 2 ^ 63 \<Longrightarrow> sint (word_of_int i :: go_int) = i"
  by (simp add: sint_sbintrunc' signed_take_bit_int_eq_self)

lemma sint_int_of_float64:
  "- (2 ^ 63) \<le> trunc x \<Longrightarrow> trunc x < 2 ^ 63 \<Longrightarrow>
     sint (int_of_float64 impl (Finite x)) = (if 0 \<le> x then \<lfloor>x\<rfloor> else \<lceil>x\<rceil>)"
  using sint_word_of_int_fits [of "trunc x"] by (simp add: int_of_float64_def) (simp add: trunc_def)


section \<open>The claims\<close>

text \<open>
  Claim C1. When the stream has exactly one round start and, later, exactly one round end,
  and parsing ends cleanly, the result holds exactly one round: its number is 1 and its
  duration is Go's \<^verbatim>\<open>(end_tick - start_tick) / 128\<close>, whatever the header says. While the
  difference of the ticks fits Go's \<^verbatim>\<open>int\<close>, that is the difference divided by 128 and
  truncated towards zero.
\<close>

theorem C1_single_round:
  assumes "dispatched (ParseToEnd w data) =
             pre @ (EvRoundStart rs, g0) # mid @ (EvRoundEnd re, g1) # post"
    and "finished (ParseToEnd w data) = Inr header"
    and "\<forall>sg \<in> set (pre @ mid @ post). \<not> is_RoundStart sg \<and> \<not> is_RoundEnd sg"
  shows "\<exists>pd r. parseDemo w demoID data = Inr pd
           \<and> Rounds pd = [r]
           \<and> Round.RoundNumber r = 1
           \<and> DurationSeconds r = go_div (IngameTick g1 - IngameTick g0) 128
           \<and> (- (2 ^ 63) \<le> sint (IngameTick g1) - sint (IngameTick g0)
                \<and> sint (IngameTick g1) - sint (IngameTick g0) < 2 ^ 63 \<longrightarrow>
              sint (DurationSeconds r) =
                (if 0 \<le> sint (IngameTick g1) - sint (IngameTick g0)
                 then (sint (IngameTick g1) - sint (IngameTick g0)) div 128
                 else - ((sint (IngameTick g0) - sint (IngameTick g1)) div 128)))"
proof -
  let ?s0 = "initial_state demoID"
  let ?s1 = "run_handlers ?s0 pre"
  let ?s2 = "dispatch ?s1 (EvRoundStart rs, g0)"
  let ?s3 = "run_handlers ?s2 mid"
  let ?s4 = "dispatch ?s3 (EvRoundEnd re, g1)"
  let ?s5 = "run_handlers ?s4 post"
  let ?r = "\<lparr>Round.RoundNumber = 1, WinnerSide = Winner_String re,
             WinReason = Reason_String re, CTScore = CT_Score g1, TScore = T_Score g1,
             DurationSeconds = go_div (IngameTick g1 - IngameTick g0) 128,
             RoundData = Map.empty\<rparr>"
  have np: "\<forall>sg \<in> set pre. \<not> is_RoundStart sg" "\<forall>sg \<in> set pre. \<not> is_RoundEnd sg"
    and nm: "\<forall>sg \<in> set mid. \<not> is_RoundStart sg" "\<forall>sg \<in> set mid. \<not> is_RoundEnd sg"
    and nq: "\<forall>sg \<in> set post. \<not> is_RoundEnd sg"
    using assms(3) by auto
  have split: "run_handlers ?s0 (dispatched (ParseToEnd w data)) = ?s5"
    by (simp add: assms(1) run_handlers_append del: dispatch.simps)
  have s1: "currentRound ?s1 = 0" "Rounds (parsed ?s1) = []"
    using np by (simp_all add: run_currentRound_unchanged run_Rounds_unchanged initial_state_def)
  have s2: "currentRound ?s2 = 1" "startTick ?s2 = IngameTick g0" "Rounds (parsed ?s2) = []"
    using s1 by (simp_all add: on_RoundStart_def)
  have s3: "currentRound ?s3 = 1" "startTick ?s3 = IngameTick g0" "Rounds (parsed ?s3) = []"
    using s2 nm
    by (simp_all add: run_currentRound_unchanged run_startTick_unchanged run_Rounds_unchanged
          del: dispatch.simps)
  have s4: "Rounds (parsed ?s4) = [?r]"
    by (simp only: dispatch_Rounds_end s3) simp
  have s5: "Rounds (parsed ?s5) = [?r]"
    using nq s4 by (simp only: run_Rounds_unchanged)
  obtain pd where pd: "parseDemo w demoID data = Inr pd"
      "Rounds pd = Rounds (parsed (run_handlers ?s0 (dispatched (ParseToEnd w data))))"
    using parseDemo_clean [OF assms(2)] by blast
  have rounds: "Rounds pd = [?r]"
    using pd(2) split s5 by simp
  have int_reading: "sint (DurationSeconds ?r) =
      (if 0 \<le> sint (IngameTick g1) - sint (IngameTick g0)
       then (sint (IngameTick g1) - sint (IngameTick g0)) div 128
       else - ((sint (IngameTick g0) - sint (IngameTick g1)) div 128))"
    if "- (2 ^ 63) \<le> sint (IngameTick g1) - sint (IngameTick g0)"
       "sint (IngameTick g1) - sint (IngameTick g0) < 2 ^ 63"
    using that by (simp add: sint_go_div_128 sint_minus_no_overflow sdiv_128_trunc)
  show ?thesis
    using pd(1) rounds int_reading by (intro exI [of _ pd] exI [of _ ?r]) simp
qed

theorem C1_single_round_witness:
  "\<exists>pd r. parseDemo (example_world \<lparr>dispatched = example_stream, finished = Inr example_header\<rparr>)
             ''d1'' ''demo'' = Inr pd
          \<and> Rounds pd = [r] \<and> Round.RoundNumber r = 1 \<and> DurationSeconds r = 10"
proof -
  let ?w = "example_world \<lparr>dispatched = example_stream, finished = Inr example_header\<rparr>"
  have h1: "dispatched (ParseToEnd ?w ''demo'') =
      [] @ (EvRoundStart example_start, example_gs 0 0 0) #
        [(EvKill example_kill, example_gs 640 0 0)] @
        (EvRoundEnd example_end, example_gs 1280 1 0) # []"
    by (simp add: example_world_def example_stream_def)
  have h2: "finished (ParseToEnd ?w ''demo'') = Inr example_header"
    by (simp add: example_world_def)
  have h3: "\<forall>sg \<in> set ([] @ [(EvKill example_kill, example_gs 640 0 0)] @ []).
              \<not> is_RoundStart sg \<and> \<not> is_RoundEnd sg"
    by simp
  from C1_single_round [OF h1 h2 h3, of "''d1''"] show ?thesis
    by (auto simp: example_gs_def go_div_def signed_divide_int_def)
qed

text \<open>
  The claim C2 as it is written fails for a kill with an assister: A is neither the killer
  nor the victim, and the second assisted kill changes the assist count of A's accumulator
  from 1 to 2.
\<close>

theorem C2_assister_counterexample:
  "Killer example_kill_assisted = Some example_K
   \<and> Victim example_kill_assisted = Some example_V
   \<and> SteamID64 example_K \<noteq> SteamID64 example_V
   \<and> SteamID64 example_A \<noteq> SteamID64 example_K
   \<and> SteamID64 example_A \<noteq> SteamID64 example_V
   \<and> assists_of (playerStats (on_Kill (initial_state ''d1'') example_kill_assisted
         (example_gs 640 0 0))) (SteamID64 example_A) = 1
   \<and> assists_of (playerStats (on_Kill (on_Kill (initial_state ''d1'') example_kill_assisted
         (example_gs 640 0 0)) example_kill_assisted (example_gs 700 0 0)))
         (SteamID64 example_A) = 2"
  by (simp add: on_Kill_playerStats credited_def assists_of_def fresh_Player_def
      initial_state_def example_kill_assisted_def example_kill_def
      example_K_def example_V_def example_A_def)

text \<open>
  Claim C2, as amended. For a kill with killer K and victim V of different identities, and
  for every identity: the kill count grows by exactly 1 for K and stays for everybody
  else, the death count grows by exactly 1 for V and stays for everybody else, and the
  assist count grows by exactly 1 for a present assister and stays for everybody else.
  Every accumulator other than those of K, V and a present assister is unchanged as a
  whole, and every accumulator that existed keeps its identity, name and team label.
\<close>

theorem C2_kill_credits_killer_and_victim:
  assumes "Killer e = Some K" and "Victim e = Some V" and "SteamID64 K \<noteq> SteamID64 V"
  shows "(\<forall>k. kills_of (playerStats (on_Kill s e gs)) k =
              kills_of (playerStats s) k + (if k = SteamID64 K then 1 else 0))
       \<and> (\<forall>k. deaths_of (playerStats (on_Kill s e gs)) k =
              deaths_of (playerStats s) k + (if k = SteamID64 V then 1 else 0))
       \<and> (\<forall>k. assists_of (playerStats (on_Kill s e gs)) k =
              assists_of (playerStats s) k +
                (if \<exists>a. Assister e = Some a \<and> SteamID64 a = k then 1 else 0))
       \<and> (\<forall>k. k \<noteq> SteamID64 K \<and> k \<noteq> SteamID64 V
              \<and> (\<forall>a. Assister e = Some a \<longrightarrow> k \<noteq> SteamID64 a) \<longrightarrow>
            playerStats (on_Kill s e gs) k = playerStats s k)
       \<and> (\<forall>k p. playerStats s k = Some p \<longrightarrow>
            (\<exists>p'. playerStats (on_Kill s e gs) k = Some p' \<and> SteamID p' = SteamID p
                  \<and> Name p' = Name p \<and> Team p' = Team p))"
proof -
  let ?incK = "\<lambda>killer. killer\<lparr>Kills := Kills killer + 1\<rparr>"
  let ?incD = "\<lambda>victim. victim\<lparr>Deaths := Deaths victim + 1\<rparr>"
  let ?incA = "\<lambda>assister. assister\<lparr>Assists := Assists assister + 1\<rparr>"
  let ?st0 = "playerStats s"
  let ?st1 = "credited ?st0 (Some K) ?incK"
  let ?st2 = "credited ?st1 (Some V) ?incD"
  let ?st3 = "credited ?st2 (Assister e) ?incA"
  have st: "playerStats (on_Kill s e gs) = ?st3"
    by (simp add: on_Kill_playerStats assms)
  have kills: "kills_of ?st3 k = kills_of ?st0 k + (if k = SteamID64 K then 1 else 0)" for k
  proof -
    have "kills_of ?st3 k = kills_of ?st1 k"
      by (simp add: kills_of_credited_keep)
    also have "\<dots> = kills_of ?st0 k + (if k = SteamID64 K then 1 else 0)"
      by (simp add: kills_of_credited eq_commute)
    finally show ?thesis .
  qed
  have deaths: "deaths_of ?st3 k = deaths_of ?st0 k + (if k = SteamID64 V then 1 else 0)" for k
  proof -
    have "deaths_of ?st3 k = deaths_of ?st2 k"
      by (simp add: deaths_of_credited_keep)
    also have "\<dots> = deaths_of ?st1 k + (if k = SteamID64 V then 1 else 0)"
      by (simp add: deaths_of_credited eq_commute)
    also have "deaths_of ?st1 k = deaths_of ?st0 k"
      by (simp add: deaths_of_credited_keep)
    finally show ?thesis .
  qed
  have assists: "assists_of ?st3 k = assists_of ?st0 k +
      (if \<exists>a. Assister e = Some a \<and> SteamID64 a = k then 1 else 0)" for k
  proof -
    have "assists_of ?st3 k = assists_of ?st2 k +
        (if \<exists>a. Assister e = Some a \<and> SteamID64 a = k then 1 else 0)"
      by (rule assists_of_credited)
    also have "assists_of ?st2 k = assists_of ?st0 k"
      by (simp add: assists_of_credited_keep)
    finally show ?thesis .
  qed
  have others: "?st3 k = ?st0 k"
    if "k \<noteq> SteamID64 K \<and> k \<noteq> SteamID64 V \<and> (\<forall>a. Assister e = Some a \<longrightarrow> k \<noteq> SteamID64 a)"
    for k
  proof -
    have "?st3 k = ?st2 k"
      using that by (intro credited_other) auto
    also have "?st2 k = ?st1 k"
      using that by (intro credited_other) auto
    also have "?st1 k = ?st0 k"
      using that by (intro credited_other) auto
    finally show ?thesis .
  qed
  have identity: "\<exists>p'. ?st3 k = Some p' \<and> SteamID p' = SteamID p
      \<and> Name p' = Name p \<and> Team p' = Team p" if prem: "?st0 k = Some p" for k p
  proof -
    obtain p1 where p1: "?st1 k = Some p1" "SteamID p1 = SteamID p" "Name p1 = Name p"
        "Team p1 = Team p"
      using credited_identity [of ?st0 k p ?incK "Some K"] prem by auto
    obtain p2 where p2: "?st2 k = Some p2" "SteamID p2 = SteamID p1" "Name p2 = Name p1"
        "Team p2 = Team p1"
      using credited_identity [of ?st1 k p1 ?incD "Some V"] p1(1) by auto
    obtain p3 where p3: "?st3 k = Some p3" "SteamID p3 = SteamID p2" "Name p3 = Name p2"
        "Team p3 = Team p2"
      using credited_identity [of ?st2 k p2 ?incA "Assister e"] p2(1) by auto
    from p1 p2 p3 show ?thesis by simp
  qed
  show ?thesis
    unfolding st using kills deaths assists others identity by blast
qed

theorem C2_kill_credits_killer_and_victim_witness:
  "kills_of (playerStats (on_Kill (initial_state ''d1'') example_kill_assisted
      (example_gs 640 0 0))) (SteamID64 example_K) = 1
   \<and> kills_of (playerStats (on_Kill (initial_state ''d1'') example_kill_assisted
      (example_gs 640 0 0))) (SteamID64 example_A) = 0"
proof -
  let ?s' = "on_Kill (initial_state ''d1'') example_kill_assisted (example_gs 640 0 0)"
  have h1: "Killer example_kill_assisted = Some example_K"
    by (simp add: example_kill_assisted_def example_kill_def)
  have h2: "Victim example_kill_assisted = Some example_V"
    by (simp add: example_kill_assisted_def example_kill_def)
  have h3: "SteamID64 example_K \<noteq> SteamID64 example_V"
    by (simp add: example_K_def example_V_def)
  have h4: "kills_of (playerStats (initial_state ''d1'')) k = 0" for k
    by (simp add: initial_state_def kills_of_def)
  have h5: "SteamID64 example_A \<noteq> SteamID64 example_K"
    by (simp add: example_K_def example_A_def)
  have all: "\<forall>k. kills_of (playerStats ?s') k =
      kills_of (playerStats (initial_state ''d1'')) k + (if k = SteamID64 example_K then 1 else 0)"
    using C2_kill_credits_killer_and_victim [OF h1 h2 h3] by (rule conjunct1)
  have "kills_of (playerStats ?s') (SteamID64 example_K) = 1"
    using all [THEN spec, of "SteamID64 example_K"] by (simp add: h4)
  moreover have "kills_of (playerStats ?s') (SteamID64 example_A) = 0"
    using all [THEN spec, of "SteamID64 example_A"] h5 by (simp add: h4)
  ultimately show ?thesis
    by (rule conjI)
qed

text \<open>
  Claim C3. After any signals without a round end, of which N are round starts, the
  round counter is N (as a Go \<^verbatim>\<open>int\<close>, and as a number while N is below \<open>2 ^ 63\<close>) and no
  round has been recorded. A round start adds one to the counter whatever the event
  carries, and no other signal changes the counter.
\<close>

theorem C3_round_counter:
  assumes "\<forall>sg \<in> set sigs. \<not> is_RoundEnd sg"
  shows "currentRound (run_handlers (initial_state demoID) sigs) =
           of_nat (length (filter is_RoundStart sigs))
       \<and> (length (filter is_RoundStart sigs) < 2 ^ 63 \<longrightarrow>
            sint (currentRound (run_handlers (initial_state demoID) sigs)) =
              int (length (filter is_RoundStart sigs)))
       \<and> Rounds (parsed (run_handlers (initial_state demoID) sigs)) = []
       \<and> (\<forall>s e gs. currentRound (dispatch s (EvRoundStart e, gs)) = currentRound s + 1)
       \<and> (\<forall>s sg. \<not> is_RoundStart sg \<longrightarrow> currentRound (dispatch s sg) = currentRound s)"
proof -
  have c: "currentRound (run_handlers (initial_state demoID) sigs) =
           of_nat (length (filter is_RoundStart sigs))"
    by (simp add: run_currentRound initial_state_def)
  have r: "Rounds (parsed (run_handlers (initial_state demoID) sigs)) = []"
    using assms by (simp add: run_Rounds_unchanged initial_state_def)
  have d1: "\<forall>s e gs. currentRound (dispatch s (EvRoundStart e, gs)) = currentRound s + 1"
    by (simp add: dispatch_currentRound del: dispatch.simps)
  have d2: "\<forall>s sg. \<not> is_RoundStart sg \<longrightarrow> currentRound (dispatch s sg) = currentRound s"
    by (simp add: dispatch_currentRound)
  have i: "length (filter is_RoundStart sigs) < 2 ^ 63 \<longrightarrow>
            sint (currentRound (run_handlers (initial_state demoID) sigs)) =
              int (length (filter is_RoundStart sigs))"
    unfolding c using sint_of_nat_small by blast
  from c i r d1 d2 show ?thesis
    by blast
qed

theorem C3_round_counter_witness:
  "currentRound (run_handlers (initial_state ''d1'')
     [(EvRoundStart example_start, example_gs 0 0 0),
      (EvKill example_kill, example_gs 640 0 0),
      (EvRoundStart example_start, example_gs 900 0 0),
      (EvRoundStart (example_start\<lparr>TimeLimit := 7\<rparr>), example_gs 950 0 0)]) = 3"
proof -
  let ?sigs = "[(EvRoundStart example_start, example_gs 0 0 0),
      (EvKill example_kill, example_gs 640 0 0),
      (EvRoundStart example_start, example_gs 900 0 0),
      (EvRoundStart (example_start\<lparr>TimeLimit := 7\<rparr>), example_gs 950 0 0)]"
  have h: "\<forall>sg \<in> set ?sigs. \<not> is_RoundEnd sg" by simp
  have "currentRound (run_handlers (initial_state ''d1'') ?sigs) =
          of_nat (length (filter is_RoundStart ?sigs))"
    using C3_round_counter [OF h, of "''d1''"] by (rule conjunct1)
  also have "of_nat (length (filter is_RoundStart ?sigs)) = (3 :: go_int)"
    by simp
  finally show ?thesis .
qed

text \<open>
  Claim C4. After any signals, two accumulators that carry the same identity are one and
  the same entry of the map, so an identity has at most one accumulator. An accumulator
  that exists keeps its name and team label through every later signal, whatever name and
  side the later signals show for that identity; and the name and label it keeps are those
  of the first sighting: of the first of killer, victim and assister of the kill that
  created it.
\<close>

theorem C4_one_accumulator_first_sighting_kept:
  "(\<forall>k k' p p'.
      playerStats (run_handlers (initial_state demoID) sigs) k = Some p
      \<and> playerStats (run_handlers (initial_state demoID) sigs) k' = Some p'
      \<and> SteamID p = SteamID p' \<longrightarrow> k = k')
   \<and> (\<forall>k p. playerStats (run_handlers (initial_state demoID) sigs) k = Some p \<longrightarrow>
         (\<exists>p'. playerStats (run_handlers (initial_state demoID) (sigs @ later)) k = Some p'
               \<and> Name p' = Name p \<and> Team p' = Team p))
   \<and> (\<forall>e gs k cp. playerStats (run_handlers (initial_state demoID) sigs) k = None
         \<and> first_sighting e k = Some cp \<longrightarrow>
         (\<exists>p'. playerStats (run_handlers (initial_state demoID) (sigs @ (EvKill e, gs) # later)) k = Some p'
               \<and> Name p' = common_Player.Name cp
               \<and> Team p' = (if common_Player.Team cp = TeamTerrorists then ''T''
                             else if common_Player.Team cp = TeamCounterTerrorists then ''CT''
                             else ''spectator'')))"
proof -
  let ?s = "run_handlers (initial_state demoID) sigs"
  have one: "k = k'"
    if "playerStats ?s k = Some p" "playerStats ?s k' = Some p'" "SteamID p = SteamID p'"
    for k k' p p'
    using run_keyed [OF initial_keyed] that by (rule keyed_distinct)
  have kept: "\<exists>p'. playerStats (run_handlers (initial_state demoID) (sigs @ later)) k = Some p'
               \<and> Name p' = Name p \<and> Team p' = Team p"
    if "playerStats ?s k = Some p" for k p
  proof -
    have "labelled (playerStats ?s) k (Name p) (Team p)"
      using that by (simp add: labelled_def)
    then have "labelled (playerStats (run_handlers ?s later)) k (Name p) (Team p)"
      by (rule run_labelled)
    then show ?thesis
      by (simp add: labelled_def run_handlers_append)
  qed
  have first: "\<exists>p'. playerStats (run_handlers (initial_state demoID) (sigs @ (EvKill e, gs) # later)) k = Some p'
               \<and> Name p' = common_Player.Name cp
               \<and> Team p' = (if common_Player.Team cp = TeamTerrorists then ''T''
                             else if common_Player.Team cp = TeamCounterTerrorists then ''CT''
                             else ''spectator'')"
    if "playerStats ?s k = None" "first_sighting e k = Some cp" for e gs k cp
  proof -
    have "labelled (playerStats (on_Kill ?s e gs)) k (Name (fresh_Player cp)) (Team (fresh_Player cp))"
      using that by (rule on_Kill_first_sighting)
    then have "labelled (playerStats (run_handlers (on_Kill ?s e gs) later)) k
        (Name (fresh_Player cp)) (Team (fresh_Player cp))"
      by (rule run_labelled)
    then show ?thesis
      by (simp add: labelled_def run_handlers_append fresh_Player_def)
  qed
  from one kept first show ?thesis
    by blast
qed

theorem C4_one_accumulator_first_sighting_kept_witness:
  "\<exists>p. playerStats (run_handlers (initial_state ''d1'')
           [(EvKill example_kill, example_gs 640 0 0),
            (EvKill example_kill_switched, example_gs 700 0 0)]) (SteamID64 example_K) = Some p
       \<and> Name p = ''K'' \<and> Team p = ''T''"
proof -
  let ?later = "[(EvKill example_kill_switched, example_gs 700 0 0)]"
  note c4 = C4_one_accumulator_first_sighting_kept [of "''d1''" "[]" ?later]
  have h1: "playerStats (run_handlers (initial_state ''d1'') []) (SteamID64 example_K) = None"
    by (simp add: initial_state_def)
  have h2: "first_sighting example_kill (SteamID64 example_K) = Some example_K"
    by (simp add: first_sighting_def List.map_filter_simps example_kill_def)
  from c4 have "\<forall>e gs k cp. playerStats (run_handlers (initial_state ''d1'') []) k = None
         \<and> first_sighting e k = Some cp \<longrightarrow>
         (\<exists>p'. playerStats (run_handlers (initial_state ''d1'') ([] @ (EvKill e, gs) # ?later)) k = Some p'
               \<and> Name p' = common_Player.Name cp
               \<and> Team p' = (if common_Player.Team cp = TeamTerrorists then ''T''
                             else if common_Player.Team cp = TeamCounterTerrorists then ''CT''
                             else ''spectator''))"
    by (elim conjE)
  then have "\<exists>p'. playerStats (run_handlers (initial_state ''d1'')
                 ([] @ (EvKill example_kill, example_gs 640 0 0) # ?later)) (SteamID64 example_K) = Some p'
               \<and> Name p' = common_Player.Name example_K
               \<and> Team p' = (if common_Player.Team example_K = TeamTerrorists then ''T''
                             else if common_Player.Team example_K = TeamCounterTerrorists then ''CT''
                             else ''spectator'')"
    using h1 h2 by blast
  then obtain p where p: "playerStats (run_handlers (initial_state ''d1'')
        ([] @ (EvKill example_kill, example_gs 640 0 0) # ?later)) (SteamID64 example_K) = Some p"
      "Name p = common_Player.Name example_K"
      "Team p = (if common_Player.Team example_K = TeamTerrorists then ''T''
                 else if common_Player.Team example_K = TeamCounterTerrorists then ''CT''
                 else ''spectator'')"
    by (elim exE conjE)
  have "Name p = ''K''" "Team p = ''T''"
    using p(2,3) by (simp_all add: example_K_def)
  moreover have "playerStats (run_handlers (initial_state ''d1'')
           [(EvKill example_kill, example_gs 640 0 0),
            (EvKill example_kill_switched, example_gs 700 0 0)]) (SteamID64 example_K) = Some p"
    using p(1) by (simp only: append_Nil)
  ultimately show ?thesis
    by (intro exI [of _ p] conjI)
qed

text \<open>
  Claim C5. When \<^verbatim>\<open>ParseToEnd\<close> returns an error, after whatever signals it had dispatched,
  \<^verbatim>\<open>parseDemo\<close> returns that error and no result. The handler then answers with a server
  error carrying the error's text, and the only requests it has sent are those of the
  download, all of them GET requests: nothing is posted to the webhook.
\<close>

theorem C5_decode_fault_no_result_no_delivery:
  assumes "finished (ParseToEnd w data) = Inl err"
  shows "parseDemo w demoID data = Inl err
       \<and> (\<forall>r req sent.
             Method r = ''POST'' \<and> Decoder_Decode w (Body r) = Inr req
             \<and> downloadDemo w (FilePath req) = (Inr data, sent) \<longrightarrow>
             parseHandler w r = (http_Error (Error_text err) StatusInternalServerError, sent)
             \<and> (\<forall>q \<in> set (snd (parseHandler w r)). Method q = ''GET''))"
proof -
  have fault: "parseDemo w d data = Inl err" for d
    using assms by (rule parseDemo_fault)
  have handler: "parseHandler w r = (http_Error (Error_text err) StatusInternalServerError, sent)
             \<and> (\<forall>q \<in> set (snd (parseHandler w r)). Method q = ''GET'')"
    if "Method r = ''POST''" "Decoder_Decode w (Body r) = Inr req"
       "downloadDemo w (FilePath req) = (Inr data, sent)" for r req sent
  proof -
    have 1: "parseHandler w r = (http_Error (Error_text err) StatusInternalServerError, sent)"
      using that fault by (simp add: parseHandler_def)
    have "\<forall>q \<in> set sent. Method q = ''GET''"
      using downloadDemo_sent [of w "FilePath req"] that(3) by simp
    with 1 show ?thesis by simp
  qed
  from fault handler show ?thesis
    by blast
qed

theorem C5_decode_fault_no_result_no_delivery_witness:
  "parseDemo (example_world example_fault) ''d1'' ''demo'' =
     Inl (Error ''demo stream ended unexpectedly'')
   \<and> Status (fst (parseHandler (example_world example_fault) example_request)) = 500
   \<and> map Method (snd (parseHandler (example_world example_fault) example_request)) = [''GET'']"
proof -
  let ?w = "example_world example_fault"
  let ?err = "Error ''demo stream ended unexpectedly''"
  have h0: "finished (ParseToEnd ?w ''demo'') = Inl ?err"
    by (simp add: example_world_def example_fault_def)
  note c5 = C5_decode_fault_no_result_no_delivery [OF h0, of "''d1''"]
  have h1: "Method example_request = ''POST''"
    by (simp add: example_request_def)
  have h2: "Decoder_Decode ?w (Body example_request) =
      Inr \<lparr>ParseRequest.DemoID = ''d1'', FilePath = ''d1.dem''\<rparr>"
    by (rule example_decode)
  obtain sent where h3: "downloadDemo ?w
      (FilePath \<lparr>ParseRequest.DemoID = ''d1'', FilePath = ''d1.dem''\<rparr>) = (Inr ''demo'', sent)"
    using example_download [of example_fault] by auto
  from c5 have a: "parseDemo ?w ''d1'' ''demo'' = Inl ?err"
    by (rule conjunct1)
  from c5 h1 h2 h3 have b: "parseHandler ?w example_request =
        (http_Error (Error_text ?err) StatusInternalServerError, sent)
      \<and> (\<forall>q \<in> set (snd (parseHandler ?w example_request)). Method q = ''GET'')"
    by blast
  then have c: "Status (fst (parseHandler ?w example_request)) = 500"
    by (simp add: http_Error_def StatusInternalServerError_def)
  have "map Method sent = [''GET'']"
    using h3 by (auto simp: downloadDemo_def http_NewRequest_def example_world_def Let_def)
  with b have d: "map Method (snd (parseHandler ?w example_request)) = [''GET'']"
    by simp
  from a c d show ?thesis
    by (intro conjI)
qed

text \<open>
  Claim C6. Before the first round start the round counter and the start tick still hold
  their initial 0. A kill dispatched then is recorded with round number 0, and a round
  end dispatched then is recorded too, with round number 0 and the duration measured from
  tick 0; both records are in the result of a clean parse, at the position of their
  arrival.
\<close>

theorem C6_before_the_first_round_start:
  assumes "dispatched (ParseToEnd w data) = pre @ sg # post"
    and "finished (ParseToEnd w data) = Inr header"
    and "\<forall>x \<in> set pre. \<not> is_RoundStart x"
  shows "\<exists>pd. parseDemo w demoID data = Inr pd
     \<and> startTick (run_handlers (initial_state demoID) pre) = 0
     \<and> (\<forall>e gs. sg = (EvKill e, gs) \<longrightarrow>
          length (filter is_Kill pre) < length (Events pd)
          \<and> EventType (Events pd ! length (filter is_Kill pre)) = ''kill''
          \<and> Tick (Events pd ! length (filter is_Kill pre)) = IngameTick gs
          \<and> GameEvent.RoundNumber (Events pd ! length (filter is_Kill pre)) = 0)
     \<and> (\<forall>e gs. sg = (EvRoundEnd e, gs) \<longrightarrow>
          length (filter is_RoundEnd pre) < length (Rounds pd)
          \<and> Rounds pd ! length (filter is_RoundEnd pre) =
              \<lparr>Round.RoundNumber = 0, WinnerSide = Winner_String e,
               WinReason = Reason_String e, CTScore = CT_Score gs, TScore = T_Score gs,
               DurationSeconds = go_div (IngameTick gs - 0) 128,
               RoundData = Map.empty\<rparr>)"
proof -
  let ?s0 = "initial_state demoID"
  let ?s1 = "run_handlers ?s0 pre"
  let ?s2 = "dispatch ?s1 sg"
  let ?s3 = "run_handlers ?s2 post"
  have split: "run_handlers ?s0 (dispatched (ParseToEnd w data)) = ?s3"
    by (simp add: assms(1) run_handlers_append del: dispatch.simps)
  obtain pd where pd: "parseDemo w demoID data = Inr pd"
      "Rounds pd = Rounds (parsed ?s3)" "Events pd = Events (parsed ?s3)"
    using parseDemo_clean [OF assms(2), of demoID] split by auto
  have s1: "currentRound ?s1 = 0" "startTick ?s1 = 0"
    using assms(3)
    by (simp_all add: run_currentRound_unchanged run_startTick_unchanged initial_state_def)
  obtain es1 where es1: "Events (parsed ?s1) = es1" "length es1 = length (filter is_Kill pre)"
    using run_Events_grow [of ?s0 pre] by (auto simp: initial_state_def)
  obtain rs1 where rs1: "Rounds (parsed ?s1) = rs1" "length rs1 = length (filter is_RoundEnd pre)"
    using run_Rounds_grow [of ?s0 pre] by (auto simp: initial_state_def)
  obtain es3 where es3: "Events (parsed ?s3) = Events (parsed ?s2) @ es3"
    using run_Events_grow [of ?s2 post] by blast
  obtain rs3 where rs3: "Rounds (parsed ?s3) = Rounds (parsed ?s2) @ rs3"
    using run_Rounds_grow [of ?s2 post] by blast
  have kill: "length (filter is_Kill pre) < length (Events pd)
          \<and> EventType (Events pd ! length (filter is_Kill pre)) = ''kill''
          \<and> Tick (Events pd ! length (filter is_Kill pre)) = IngameTick gs
          \<and> GameEvent.RoundNumber (Events pd ! length (filter is_Kill pre)) = 0"
    if "sg = (EvKill e, gs)" for e gs
  proof -
    obtain d where "Events (parsed (dispatch ?s1 (EvKill e, gs))) = Events (parsed ?s1) @
        [\<lparr>EventType = ''kill'', Tick = IngameTick gs, RoundNumber = currentRound ?s1,
          EventData = d\<rparr>]"
      using dispatch_Events_kill [of ?s1 e gs] by blast
    then have "Events (parsed ?s2) = es1 @
        [\<lparr>EventType = ''kill'', Tick = IngameTick gs, RoundNumber = 0, EventData = d\<rparr>]"
      unfolding that es1(1) s1(1) .
    then have "Events pd = es1 @
        \<lparr>EventType = ''kill'', Tick = IngameTick gs, RoundNumber = 0, EventData = d\<rparr> # es3"
      using pd(3) es3 by simp
    then show ?thesis
      using es1(2) by (simp add: nth_append)
  qed
  have rend: "length (filter is_RoundEnd pre) < length (Rounds pd)
          \<and> Rounds pd ! length (filter is_RoundEnd pre) =
              \<lparr>Round.RoundNumber = 0, WinnerSide = Winner_String e,
               WinReason = Reason_String e, CTScore = CT_Score gs, TScore = T_Score gs,
               DurationSeconds = go_div (IngameTick gs - 0) 128,
               RoundData = Map.empty\<rparr>"
    if "sg = (EvRoundEnd e, gs)" for e gs
  proof -
    have "Rounds (parsed ?s2) = rs1 @
        [\<lparr>Round.RoundNumber = 0, WinnerSide = Winner_String e,
          WinReason = Reason_String e, CTScore = CT_Score gs, TScore = T_Score gs,
          DurationSeconds = go_div (IngameTick gs - 0) 128, RoundData = Map.empty\<rparr>]"
      unfolding that by (simp only: dispatch_Rounds_end rs1(1) s1)
    then have "Rounds pd = rs1 @
        \<lparr>Round.RoundNumber = 0, WinnerSide = Winner_String e,
          WinReason = Reason_String e, CTScore = CT_Score gs, TScore = T_Score gs,
          DurationSeconds = go_div (IngameTick gs - 0) 128, RoundData = Map.empty\<rparr> # rs3"
      using pd(2) rs3 by simp
    then show ?thesis
      using rs1(2) by (simp add: nth_append)
  qed
  from pd(1) s1(2) kill rend show ?thesis
    by (intro exI [of _ pd]) blast
qed

theorem C6_before_the_first_round_start_witness:
  "\<exists>pd. parseDemo (example_world
            \<lparr>dispatched = [(EvKill example_kill, example_gs 640 0 0),
                           (EvRoundEnd example_end, example_gs 1280 1 0)],
             finished = Inr example_header\<rparr>) ''d1'' ''demo'' = Inr pd
     \<and> GameEvent.RoundNumber (Events pd ! 0) = 0
     \<and> Round.RoundNumber (Rounds pd ! 0) = 0
     \<and> DurationSeconds (Rounds pd ! 0) = 10"
proof -
  let ?p = "\<lparr>dispatched = [(EvKill example_kill, example_gs 640 0 0),
                           (EvRoundEnd example_end, example_gs 1280 1 0)],
             finished = Inr example_header\<rparr>"
  let ?w = "example_world ?p"
  have k1: "dispatched (ParseToEnd ?w ''demo'') =
      [] @ (EvKill example_kill, example_gs 640 0 0) # [(EvRoundEnd example_end, example_gs 1280 1 0)]"
    by (simp add: example_world_def)
  have r1: "dispatched (ParseToEnd ?w ''demo'') =
      [(EvKill example_kill, example_gs 640 0 0)] @ (EvRoundEnd example_end, example_gs 1280 1 0) # []"
    by (simp add: example_world_def)
  have h2: "finished (ParseToEnd ?w ''demo'') = Inr example_header"
    by (simp add: example_world_def)
  have k3: "\<forall>x \<in> set []. \<not> is_RoundStart x" by simp
  have r3: "\<forall>x \<in> set [(EvKill example_kill, example_gs 640 0 0)]. \<not> is_RoundStart x" by simp
  from C6_before_the_first_round_start [OF k1 h2 k3, of "''d1''"]
       C6_before_the_first_round_start [OF r1 h2 r3, of "''d1''"]
  show ?thesis
    by (auto simp: example_gs_def go_div_def signed_divide_int_def)
qed

text \<open>
  Claim C7. A kill whose assister is absent leaves every identity's assist count as it
  was. The record appended for a kill has exactly the keys killer, victim, weapon,
  isHeadshot and penetrated, so nothing refers to an assister; an absent killer or victim
  is written as the string \<^verbatim>\<open>unknown\<close>, and no value of the payload is nil.
\<close>

theorem C7_absent_assister_and_absent_names:
  "(Assister e = None \<longrightarrow>
      (\<forall>k. assists_of (playerStats (on_Kill s e gs)) k = assists_of (playerStats s) k))
   \<and> (\<exists>ev. Events (parsed (on_Kill s e gs)) = Events (parsed s) @ [ev]
          \<and> dom (EventData ev) = {''killer'', ''victim'', ''weapon'', ''isHeadshot'', ''penetrated''}
          \<and> EventData ev ''assister'' = None
          \<and> (Killer e = None \<longrightarrow> EventData ev ''killer'' = Some (String_value ''unknown''))
          \<and> (Victim e = None \<longrightarrow> EventData ev ''victim'' = Some (String_value ''unknown''))
          \<and> (\<forall>key. EventData ev key \<noteq> Some Nil_value))"
proof -
  have a: "assists_of (playerStats (on_Kill s e gs)) k = assists_of (playerStats s) k"
    if "Assister e = None" for k
    by (simp add: on_Kill_playerStats that assists_of_credited_keep)
  let ?ev = "\<lparr>EventType = ''kill'', Tick = IngameTick gs, RoundNumber = currentRound s,
       EventData = [''killer'' \<mapsto> String_value (getPlayerName (Killer e)),
                    ''victim'' \<mapsto> String_value (getPlayerName (Victim e)),
                    ''weapon'' \<mapsto> String_value (Weapon_String e),
                    ''isHeadshot'' \<mapsto> Bool_value (IsHeadshot e),
                    ''penetrated'' \<mapsto> Int_value (PenetratedObjects e)]\<rparr>"
  have e1: "Events (parsed (on_Kill s e gs)) = Events (parsed s) @ [?ev]"
    by (rule on_Kill_Events)
  have e2: "dom (EventData ?ev) = {''killer'', ''victim'', ''weapon'', ''isHeadshot'', ''penetrated''}"
    by (simp add: insert_commute)
  have e3: "EventData ?ev ''assister'' = None"
    by simp
  have e4: "Killer e = None \<longrightarrow> EventData ?ev ''killer'' = Some (String_value ''unknown'')"
    by (simp add: getPlayerName_def)
  have e5: "Victim e = None \<longrightarrow> EventData ?ev ''victim'' = Some (String_value ''unknown'')"
    by (simp add: getPlayerName_def)
  have e6: "\<forall>key. EventData ?ev key \<noteq> Some Nil_value"
    by simp
  have "\<exists>ev. Events (parsed (on_Kill s e gs)) = Events (parsed s) @ [ev]
          \<and> dom (EventData ev) = {''killer'', ''victim'', ''weapon'', ''isHeadshot'', ''penetrated''}
          \<and> EventData ev ''assister'' = None
          \<and> (Killer e = None \<longrightarrow> EventData ev ''killer'' = Some (String_value ''unknown''))
          \<and> (Victim e = None \<longrightarrow> EventData ev ''victim'' = Some (String_value ''unknown''))
          \<and> (\<forall>key. EventData ev key \<noteq> Some Nil_value)"
    by (intro exI [of _ ?ev] conjI) (rule e1 e2 e3 e4 e5 e6)+
  with a show ?thesis
    by (intro conjI impI allI)
qed

theorem C7_absent_assister_and_absent_names_witness:
  "assists_of (playerStats (on_Kill (initial_state ''d1'')
       (example_kill\<lparr>Killer := None\<rparr>) (example_gs 640 0 0))) (SteamID64 example_A) = 0
   \<and> map (\<lambda>ev. EventData ev ''killer'')
        (Events (parsed (on_Kill (initial_state ''d1'')
           (example_kill\<lparr>Killer := None\<rparr>) (example_gs 640 0 0)))) =
      [Some (String_value ''unknown'')]"
proof -
  let ?e = "example_kill\<lparr>Killer := None\<rparr>"
  let ?s = "initial_state ''d1''"
  let ?s' = "on_Kill ?s ?e (example_gs 640 0 0)"
  note c7 = C7_absent_assister_and_absent_names [of ?e ?s "example_gs 640 0 0"]
  have h1: "Assister ?e = None"
    by (simp add: example_kill_def)
  have h2: "Killer ?e = None"
    by simp
  have h3: "Events (parsed ?s) = []"
    by (simp add: initial_state_def)
  have h4: "assists_of (playerStats ?s) (SteamID64 example_A) = 0"
    by (simp add: initial_state_def assists_of_def)
  from c7 have "Assister ?e = None \<longrightarrow>
      (\<forall>k. assists_of (playerStats ?s') k = assists_of (playerStats ?s) k)"
    by (rule conjunct1)
  with h1 have "\<forall>k. assists_of (playerStats ?s') k = assists_of (playerStats ?s) k"
    by (rule rev_mp)
  then have a: "assists_of (playerStats ?s') (SteamID64 example_A) = 0"
    unfolding h4 [symmetric] by (rule spec)
  from c7 obtain ev where ev: "Events (parsed ?s') = Events (parsed ?s) @ [ev]"
      "Killer ?e = None \<longrightarrow> EventData ev ''killer'' = Some (String_value ''unknown'')"
    by (elim conjE exE)
  from ev(2) h2 have "EventData ev ''killer'' = Some (String_value ''unknown'')"
    by (rule mp)
  with ev(1) h3 have e: "map (\<lambda>ev. EventData ev ''killer'') (Events (parsed ?s')) =
      [Some (String_value ''unknown'')]"
    by simp
  from a e show ?thesis
    by (rule conjI)
qed

text \<open>
  The claim C8 as it is written fails: a frame rate of 63.75 gives the tick rate 63, while
  the nearest integer is 64.
\<close>

theorem C8_rounding_counterexample:
  "parseDemo (example_world \<lparr>dispatched = [], finished = Inr example_header\<rparr>) ''d1'' ''demo'' =
     Inr \<lparr>DemoID = ''d1'', Players = [], Rounds = [], Events = [],
          Metadata = \<lparr>MapName = ''de_dust2'', Duration = 10, TickRate = 63\<rparr>\<rparr>
   \<and> FrameRate example_header = Finite 63.75
   \<and> round (63.75 :: real) = 64"
  by (simp add: parseDemo_def Let_def example_world_def example_header_def initial_state_def
      int_of_float64_def trunc_def round_def List.map_filter_simps)

text \<open>
  Claim C8, as amended. After a clean parse the tick rate of the metadata is the header's
  frame rate with its fraction discarded (truncated towards zero, not rounded to the
  nearest integer), and the duration is the playback time in seconds truncated the same
  way, both for finite values that fit Go's \<^verbatim>\<open>int\<close>; the map name is the header's.
\<close>

theorem C8_metadata_truncates:
  assumes "finished (ParseToEnd w data) = Inr header"
    and "FrameRate header = Finite x" and "- (2 ^ 63) \<le> trunc x" and "trunc x < 2 ^ 63"
    and "PlaybackTime_Seconds header = Finite y" and "- (2 ^ 63) \<le> trunc y" and "trunc y < 2 ^ 63"
  shows "\<exists>pd. parseDemo w demoID data = Inr pd
           \<and> sint (TickRate (Metadata pd)) = (if 0 \<le> x then \<lfloor>x\<rfloor> else \<lceil>x\<rceil>)
           \<and> sint (Duration (Metadata pd)) = (if 0 \<le> y then \<lfloor>y\<rfloor> else \<lceil>y\<rceil>)
           \<and> Metadata.MapName (Metadata pd) = DemoHeader.MapName header"
  using assms(1,2,5) sint_int_of_float64 [OF assms(3,4)] sint_int_of_float64 [OF assms(6,7)]
  by (simp add: parseDemo_def Let_def)

theorem C8_metadata_truncates_witness:
  "\<exists>pd. parseDemo (example_world example_run) ''d1'' ''demo'' = Inr pd
     \<and> sint (TickRate (Metadata pd)) = 63 \<and> sint (Duration (Metadata pd)) = 10"
proof -
  let ?w = "example_world example_run"
  have h1: "finished (ParseToEnd ?w ''demo'') = Inr example_header"
    by (simp add: example_world_def example_run_def)
  have h2: "FrameRate example_header = Finite 63.75"
    by (simp add: example_header_def)
  have h3: "- (2 ^ 63) \<le> trunc 63.75" and h4: "trunc 63.75 < 2 ^ 63"
    by (simp_all add: trunc_def)
  have h5: "PlaybackTime_Seconds example_header = Finite 10.5"
    by (simp add: example_header_def)
  have h6: "- (2 ^ 63) \<le> trunc 10.5" and h7: "trunc 10.5 < 2 ^ 63"
    by (simp_all add: trunc_def)
  from C8_metadata_truncates [OF h1 h2 h3 h4 h5 h6 h7, of "''d1''"]
  obtain pd where "parseDemo ?w ''d1'' ''demo'' = Inr pd"
    "sint (TickRate (Metadata pd)) = (if (0::real) \<le> 63.75 then \<lfloor>63.75::real\<rfloor> else \<lceil>63.75::real\<rceil>)"
    "sint (Duration (Metadata pd)) = (if (0::real) \<le> 10.5 then \<lfloor>10.5::real\<rfloor> else \<lceil>10.5::real\<rceil>)"
    by (elim exE conjE)
  then show ?thesis
    by (intro exI [of _ pd]) simp
qed




text \<open>
  Claim C10. A round end changes neither the round counter nor the stored start tick.
  So two round ends with no round start (and no further round end) between them append
  two records with the same round number, both durations measured from the same start
  tick.
\<close>

theorem C10_round_end_keeps_counter_and_start:
  assumes "\<forall>sg \<in> set mid. \<not> is_RoundStart sg \<and> \<not> is_RoundEnd sg"
  shows "currentRound (dispatch s (EvRoundEnd e1, g1)) = currentRound s
       \<and> startTick (dispatch s (EvRoundEnd e1, g1)) = startTick s
       \<and> Rounds (parsed (run_handlers s ((EvRoundEnd e1, g1) # mid @ [(EvRoundEnd e2, g2)]))) =
           Rounds (parsed s) @
             [\<lparr>Round.RoundNumber = currentRound s, WinnerSide = Winner_String e1,
               WinReason = Reason_String e1, CTScore = CT_Score g1, TScore = T_Score g1,
               DurationSeconds = go_div (IngameTick g1 - startTick s) 128,
               RoundData = Map.empty\<rparr>,
              \<lparr>Round.RoundNumber = currentRound s, WinnerSide = Winner_String e2,
               WinReason = Reason_String e2, CTScore = CT_Score g2, TScore = T_Score g2,
               DurationSeconds = go_div (IngameTick g2 - startTick s) 128,
               RoundData = Map.empty\<rparr>]"
proof -
  let ?s1 = "dispatch s (EvRoundEnd e1, g1)"
  let ?s2 = "run_handlers ?s1 mid"
  have a: "currentRound ?s1 = currentRound s" "startTick ?s1 = startTick s"
    by (simp_all add: on_RoundEnd_def)
  have m1: "\<forall>sg \<in> set mid. \<not> is_RoundStart sg" and m2: "\<forall>sg \<in> set mid. \<not> is_RoundEnd sg"
    using assms by blast+
  have b: "currentRound ?s2 = currentRound s" "startTick ?s2 = startTick s"
    using a m1 by (simp_all add: run_currentRound_unchanged run_startTick_unchanged del: dispatch.simps)
  have c: "Rounds (parsed ?s2) = Rounds (parsed ?s1)"
    using m2 by (rule run_Rounds_unchanged)
  have "run_handlers s ((EvRoundEnd e1, g1) # mid @ [(EvRoundEnd e2, g2)]) =
          dispatch ?s2 (EvRoundEnd e2, g2)"
    by (simp add: run_handlers_append del: dispatch.simps)
  then have "Rounds (parsed (run_handlers s ((EvRoundEnd e1, g1) # mid @ [(EvRoundEnd e2, g2)]))) =
      Rounds (parsed ?s2) @
        [\<lparr>Round.RoundNumber = currentRound ?s2, WinnerSide = Winner_String e2,
          WinReason = Reason_String e2, CTScore = CT_Score g2, TScore = T_Score g2,
          DurationSeconds = go_div (IngameTick g2 - startTick ?s2) 128,
          RoundData = Map.empty\<rparr>]"
    by (simp only: dispatch_Rounds_end)
  with a b c show ?thesis
    by (simp only: dispatch_Rounds_end) simp
qed

theorem C10_round_end_keeps_counter_and_start_witness:
  "map (\<lambda>r. (Round.RoundNumber r, DurationSeconds r))
     (Rounds (parsed (run_handlers (initial_state ''d1'')
        [(EvRoundEnd example_end, example_gs 1280 1 0),
         (EvKill example_kill, example_gs 1500 1 0),
         (EvRoundEnd example_end, example_gs 2560 2 0)]))) = [(0, 10), (0, 20)]"
proof -
  have h: "\<forall>sg \<in> set [(EvKill example_kill, example_gs 1500 1 0)].
             \<not> is_RoundStart sg \<and> \<not> is_RoundEnd sg" by simp
  from C10_round_end_keeps_counter_and_start
         [OF h, of "initial_state ''d1''" example_end "example_gs 1280 1 0"
            example_end "example_gs 2560 2 0"]
  show ?thesis
    by (simp add: initial_state_def example_gs_def go_div_def signed_divide_int_def)
qed

end
